theory Spec2Isabelle
  imports Main
begin

section \<open>Data model of package task\<close>

text \<open>
  Modelled from the spec: the declarations of the types \<open>ActiveStatus\<close> and
  \<open>FinalStatus\<close> and of the constants \<open>StatusStarted\<close>, \<open>StatusStopped\<close>,
  \<open>StatusFailed\<close> and \<open>StatusSucceeded\<close> are not in \<open>task_service.go\<close>.
  Section 3 of the spec gives \<open>ActiveStatus\<close> as the enumeration Started, Stopped and
  \<open>FinalStatus\<close> as the enumeration empty, Succeeded, Failed. \<open>StatusEmpty\<close> stands
  for the literal \<open>""\<close> that \<open>Create\<close> writes into \<open>FinalStatus\<close>.
\<close>

datatype ActiveStatus = StatusStarted | StatusStopped

datatype FinalStatus = StatusEmpty | StatusFailed | StatusSucceeded

text \<open>The struct \<open>Task\<close>, field by field; \<open>Error\<close> is \<open>""\<close> in a fresh task.\<close>

record Task =
  ActiveStatus :: ActiveStatus
  Error :: string
  FinalStatus :: FinalStatus
  ID :: string

text \<open>
  Modelled from the spec: Go's \<open>error\<close> values, the error kinds and \<open>maskAny\<close> are
  declared outside \<open>task_service.go\<close>. Section 7 of the spec names the kinds
  NotFoundError, StorageError and ActionError. An error carries its kind and the text
  that \<open>err.Error()\<close> returns. \<open>maskAny\<close> is kept as a free wrapper around the
  error it masks, so that every call of it in the source stays visible in the results;
  the masked error keeps its text.
\<close>

datatype error_kind = NotFoundError | StorageError | ActionError

datatype error = Err error_kind string | Masked error

fun maskAny :: "error \<Rightarrow> error" where
  "maskAny err = Masked err"

fun errorText :: "error \<Rightarrow> string" where
  "errorText (Err k msg) = msg"
| "errorText (Masked err) = errorText err"

text \<open>\<open>type Action func() error\<close>: \<open>None\<close> is the nil error.\<close>

type_synonym Action = "unit \<Rightarrow> error option"

text \<open>
  Modelled from the spec: the interface \<open>Storage\<close> is not in \<open>task_service.go\<close>.
  Section 6 of the spec gives its contract: \<open>Get(id)\<close> returns the task or fails
  (with NotFound if absent), \<open>Set(task)\<close> returns nil or a backend error. The backend's
  state has the type \<open>'st\<close>; \<open>Get\<close> reads it, \<open>Set\<close> returns the state it leaves
  behind together with its error (\<open>None\<close> is nil). A write that fails may still change
  the backend. In the source \<open>Set\<close> is handed a \<open>*Task\<close>: \<open>Set\<close> says what it
  does with the record it has read through a pointer that is not nil, \<open>Set_nil\<close> what
  it does with a nil pointer, \<open>None\<close> when it panics.
\<close>

record 'st Storage =
  Get :: "'st \<Rightarrow> string \<Rightarrow> error + Task"
  Set :: "'st \<Rightarrow> Task \<Rightarrow> error option \<times> 'st"
  Set_nil :: "'st \<Rightarrow> (error option \<times> 'st) option"

text \<open>\<open>Config\<close>; \<open>time.Duration\<close> counts nanoseconds.\<close>

record 'st Config =
  Storage :: "'st Storage"
  WaitSleep :: int

text \<open>
  Modelled from the spec: \<open>NewMemoryStorage\<close> is not in \<open>task_service.go\<close>. Section 6
  of the spec describes the reference implementation as a keyed map; its \<open>Set\<close> stores
  the record under \<open>task.ID\<close> and never fails, its \<open>Get\<close> fails with NotFound for an
  ID that was never stored. Reading the ID through a nil pointer panics.
\<close>

definition NewMemoryStorage :: "(string \<rightharpoonup> Task) Storage" where
  "NewMemoryStorage =
     \<lparr>Get = (\<lambda>m taskID. case m taskID of
                None \<Rightarrow> Inl (Err NotFoundError ''task object not found'')
              | Some taskObject \<Rightarrow> Inr taskObject),
      Set = (\<lambda>m taskObject. (None, m(ID taskObject \<mapsto> taskObject))),
      Set_nil = (\<lambda>m. None)\<rparr>"

text \<open>
  A backend whose writes fail on schedule: its state pairs the outcomes of the coming
  writes (\<open>True\<close>: the write fails) with the keyed map. It stands for any \<open>Storage\<close>
  with transient write failures and exercises the error paths of the service.
\<close>

definition FlakyStorage :: "(bool list \<times> (string \<rightharpoonup> Task)) Storage" where
  "FlakyStorage =
     \<lparr>Get = (\<lambda>(fs, m) taskID. case m taskID of
                None \<Rightarrow> Inl (Err NotFoundError ''task object not found'')
              | Some taskObject \<Rightarrow> Inr taskObject),
      Set = (\<lambda>(fs, m) taskObject. case fs of
                [] \<Rightarrow> (None, ([], m(ID taskObject \<mapsto> taskObject)))
              | f # fs' \<Rightarrow>
                  if f then (Some (Err StorageError ''write failed''), (fs', m))
                  else (None, (fs', m(ID taskObject \<mapsto> taskObject)))),
      Set_nil = (\<lambda>(fs, m). None)\<rparr>"

section \<open>The state the service works on\<close>

text \<open>
  A \<open>*Task\<close> is an address into the heap of task objects; an address outside the heap
  stands for nil, and dereferencing it panics. The world holds the heap, the state of
  the Storage backend, the sequence of strings \<open>uuid.NewV4().String()\<close> produces with
  the number of calls made so far, and what the logger has received.
\<close>

type_synonym ptr = nat

datatype log_entry = MarkAsFailed_failed error | MarkAsSucceeded_failed error

record 'st world =
  heap :: "Task list"
  store :: 'st
  uuid_gen :: "nat \<Rightarrow> string"
  uuid_calls :: nat
  logged :: "log_entry list"

definition set_ActiveStatus :: "ptr \<Rightarrow> ActiveStatus \<Rightarrow> 'st world \<Rightarrow> 'st world" where
  "set_ActiveStatus p v w = w\<lparr>heap := (heap w)[p := (heap w ! p)\<lparr>ActiveStatus := v\<rparr>]\<rparr>"

definition set_Error :: "ptr \<Rightarrow> string \<Rightarrow> 'st world \<Rightarrow> 'st world" where
  "set_Error p v w = w\<lparr>heap := (heap w)[p := (heap w ! p)\<lparr>Error := v\<rparr>]\<rparr>"

definition set_FinalStatus :: "ptr \<Rightarrow> FinalStatus \<Rightarrow> 'st world \<Rightarrow> 'st world" where
  "set_FinalStatus p v w = w\<lparr>heap := (heap w)[p := (heap w ! p)\<lparr>FinalStatus := v\<rparr>]\<rparr>"

section \<open>The sequential operations of taskService\<close>

text \<open>
  An operation returns \<open>None\<close> when it panics. Otherwise an operation of type
  \<open>(*Task, error)\<close> returns \<open>Inl err\<close> for \<open>(nil, err)\<close> and \<open>Inr p\<close> for
  \<open>(p, nil)\<close>, with the world it leaves behind. The marking operations assign through
  the pointer and panic on nil. \<open>PersistState\<close> does not dereference the pointer: it
  hands it to \<open>Storage.Set\<close> and masks the error that comes back. In a call that runs
  alone nothing writes the object while \<open>Set\<close> reads it, so \<open>Set\<close> has read the
  record as the heap holds it; the call inside \<open>Create\<close>, which runs beside the
  goroutine, is modelled read by read in its own section.
\<close>

definition PersistState :: "'st Config \<Rightarrow> ptr \<Rightarrow> 'st world \<Rightarrow> (error option \<times> 'st world) option" where
  "PersistState ts taskObject w =
     (case (if taskObject < length (heap w)
            then Some (Set (Storage ts) (store w) (heap w ! taskObject))
            else Set_nil (Storage ts) (store w)) of
        None \<Rightarrow> None
      | Some (Some err, s') \<Rightarrow> Some (Some (maskAny err), w\<lparr>store := s'\<rparr>)
      | Some (None, s') \<Rightarrow> Some (None, w\<lparr>store := s'\<rparr>))"

definition FetchState :: "'st Config \<Rightarrow> string \<Rightarrow> 'st \<Rightarrow> error + Task" where
  "FetchState ts taskID s =
     (case Get (Storage ts) s taskID of
        Inl err \<Rightarrow> Inl (maskAny err)
      | Inr taskObject \<Rightarrow> Inr taskObject)"

definition MarkAsFailedWithError ::
  "'st Config \<Rightarrow> ptr \<Rightarrow> error \<Rightarrow> 'st world \<Rightarrow> ((error + ptr) \<times> 'st world) option" where
  "MarkAsFailedWithError ts taskObject err w =
     (if taskObject < length (heap w) then
        (let w1 = set_ActiveStatus taskObject StatusStopped w;
             w2 = set_Error taskObject (errorText err) w1;
             w3 = set_FinalStatus taskObject StatusFailed w2
         in case PersistState ts taskObject w3 of
              None \<Rightarrow> None
            | Some (Some err', w4) \<Rightarrow> Some (Inl (maskAny err'), w4)
            | Some (None, w4) \<Rightarrow> Some (Inr taskObject, w4))
      else None)"

definition MarkAsSucceeded ::
  "'st Config \<Rightarrow> ptr \<Rightarrow> 'st world \<Rightarrow> ((error + ptr) \<times> 'st world) option" where
  "MarkAsSucceeded ts taskObject w =
     (if taskObject < length (heap w) then
        (let w1 = set_ActiveStatus taskObject StatusStopped w;
             w2 = set_FinalStatus taskObject StatusSucceeded w1
         in case PersistState ts taskObject w2 of
              None \<Rightarrow> None
            | Some (Some err, w3) \<Rightarrow> Some (Inl (maskAny err), w3)
            | Some (None, w3) \<Rightarrow> Some (Inr taskObject, w3))
      else None)"

text \<open>
  Modelled from the spec: \<open>HasFinalStatus\<close> is not in \<open>task_service.go\<close>. Section 4.2
  of the spec says the wait ends when a fetch returns a task whose \<open>FinalStatus\<close> is
  not empty.
\<close>

definition HasFinalStatus :: "Task \<Rightarrow> bool" where
  "HasFinalStatus t = (FinalStatus t \<noteq> StatusEmpty)"

section \<open>WaitForFinalStatus\<close>

text \<open>
  One turn of the loop is one \<open>select\<close> over two receives, from \<open>closer\<close> and from
  the channel of \<open>time.After(ts.WaitSleep)\<close>. Go evaluates the channel operands on
  entering the \<open>select\<close>, which starts the timer; it then takes a case that can
  proceed, blocks until one can when none can yet, and chooses one of them itself when
  both can. Time is counted in nanoseconds, as \<open>time.Duration\<close> is.

  \<^item> \<open>closer\<close> is given by the time at which it fires (\<open>None\<close>: never); from then on
    the receive from it can proceed.
  \<^item> A timer started at time \<open>t\<close> with duration \<open>d\<close> can be received from at
    \<open>t + d\<close>, and at once when \<open>d\<close> is not positive.
  \<^item> A turn brings what the runtime contributes: \<open>delay\<close>, the time that passes
    between the start of the timer and the moment the \<open>select\<close> looks at its cases,
    and \<open>pick\<close>, the case it chooses when both can proceed at the same moment.

  \<open>select\<close> returns the case taken, and for the timer's case the time at which it
  is taken.
\<close>

datatype pick = PickCloser | PickTimer

record turn =
  delay :: nat
  pick :: pick

datatype select_case = Closer | Timer int

definition select :: "int option \<Rightarrow> int \<Rightarrow> int \<Rightarrow> turn \<Rightarrow> select_case" where
  "select closer d t tu =
     (let looks = t + int (delay tu);
          timer = max (t + max 0 d) looks
      in case closer of
           None \<Rightarrow> Timer timer
         | Some fired \<Rightarrow>
             if max fired looks < timer \<or> (max fired looks = timer \<and> pick tu = PickCloser)
             then Closer
             else Timer timer)"

text \<open>
  The loop. The call is made at time \<open>t\<close>; \<open>store_at\<close> gives the state in which a
  fetch at a given time finds the Storage, which other threads change between the polls.
  The fetch and the test that follow the timer's case take no time, so the next turn
  begins when the timer's case was taken. The loop has no bound of its own: the list of
  turns bounds how long the run is observed, and \<open>None\<close> says that the call is still
  blocked when the list ends. A result is the pair \<open>(*Task, error)\<close>, each component
  \<open>None\<close> for nil; the task returned by a fetch is given by its value.
\<close>

fun WaitForFinalStatus ::
  "'st Config \<Rightarrow> string \<Rightarrow> int option \<Rightarrow> (int \<Rightarrow> 'st) \<Rightarrow> int \<Rightarrow> turn list \<Rightarrow>
   (Task option \<times> error option) option" where
  "WaitForFinalStatus ts taskID closer store_at t [] = None"
| "WaitForFinalStatus ts taskID closer store_at t (tu # turns) =
     (case select closer (WaitSleep ts) t tu of
        Closer \<Rightarrow> Some (None, None)
      | Timer t' \<Rightarrow>
          (case FetchState ts taskID (store_at t') of
             Inl err \<Rightarrow> Some (None, Some (maskAny err))
           | Inr taskObject \<Rightarrow>
               if HasFinalStatus taskObject then Some (Some taskObject, None)
               else WaitForFinalStatus ts taskID closer store_at t' turns))"

section \<open>Create and its goroutine\<close>

text \<open>
  \<open>Create\<close> allocates the task object, starts the goroutine and then persists the
  object; the goroutine runs the action and one of the two marking operations on the same
  object. Nothing locks the object, so the two threads are modelled statement by
  statement, and the main thread's call of \<open>Storage.Set\<close> read by read.

  The goroutine is at one of the program points below; the marking operations are
  unfolded into their assignments and their \<open>PersistState\<close>, in the order of the source.
  The main thread never writes the object, so whatever it does during the goroutine's own
  \<open>PersistState\<close> does not change what that call reads: it is one step.

  The main thread has one statement left after the \<open>go\<close> statement, the call of
  \<open>PersistState\<close> with the return that follows it. \<open>PersistState\<close> hands the pointer
  to \<open>Storage.Set\<close>, which reads the fields of the object while the goroutine may be
  assigning them, and then writes the backend. The reads are steps of their own, one for
  each field, in any order; \<open>snap\<close> holds the fields read so far. The write to the
  backend, with the record as it was read, and the return are the last step.
\<close>

datatype field = Field_ActiveStatus | Field_Error | Field_FinalStatus | Field_ID

record snapshot =
  read_ActiveStatus :: "ActiveStatus option"
  read_Error :: "string option"
  read_FinalStatus :: "FinalStatus option"
  read_ID :: "string option"

definition nothing_read :: snapshot where
  "nothing_read =
     \<lparr>read_ActiveStatus = None, read_Error = None, read_FinalStatus = None, read_ID = None\<rparr>"

text \<open>A field is read once: a later read of the same field changes nothing.\<close>

fun read_field :: "field \<Rightarrow> Task \<Rightarrow> snapshot \<Rightarrow> snapshot" where
  "read_field Field_ActiveStatus t s =
     (case read_ActiveStatus s of
        None \<Rightarrow> s\<lparr>read_ActiveStatus := Some (ActiveStatus t)\<rparr> | Some v \<Rightarrow> s)"
| "read_field Field_Error t s =
     (case read_Error s of None \<Rightarrow> s\<lparr>read_Error := Some (Error t)\<rparr> | Some v \<Rightarrow> s)"
| "read_field Field_FinalStatus t s =
     (case read_FinalStatus s of
        None \<Rightarrow> s\<lparr>read_FinalStatus := Some (FinalStatus t)\<rparr> | Some v \<Rightarrow> s)"
| "read_field Field_ID t s =
     (case read_ID s of None \<Rightarrow> s\<lparr>read_ID := Some (ID t)\<rparr> | Some v \<Rightarrow> s)"

text \<open>The record as it was read, once every field has been read.\<close>

definition snapshot_task :: "snapshot \<Rightarrow> Task option" where
  "snapshot_task s =
     (case (read_ActiveStatus s, read_Error s, read_FinalStatus s, read_ID s) of
        (Some a, Some e, Some f, Some i) \<Rightarrow>
          Some \<lparr>ActiveStatus = a, Error = e, FinalStatus = f, ID = i\<rparr>
      | _ \<Rightarrow> None)"

datatype main_pc =
    M_Persist
  | M_Returned "error + ptr"
  | M_Panicked

datatype go_pc =
    G_Action
  | G_Failed_ActiveStatus error
  | G_Failed_Error error
  | G_Failed_FinalStatus
  | G_Failed_Persist
  | G_Succeeded_ActiveStatus
  | G_Succeeded_FinalStatus
  | G_Succeeded_Persist
  | G_Done
  | G_Panicked

record 'st create_state =
  world :: "'st world"
  created :: ptr
  snap :: snapshot
  main :: main_pc
  go :: go_pc

text \<open>The record behind the pointer of a running \<open>Create\<close>.\<close>

definition created_task :: "'st create_state \<Rightarrow> Task" where
  "created_task cs = heap (world cs) ! created cs"

definition Create_spawn :: "'st world \<Rightarrow> 'st create_state" where
  "Create_spawn w =
     \<lparr>world = w\<lparr>heap := heap w @
                  [\<lparr>ActiveStatus = StatusStarted, Error = '''', FinalStatus = StatusEmpty,
                    ID = uuid_gen w (uuid_calls w)\<rparr>],
                uuid_calls := Suc (uuid_calls w)\<rparr>,
      created = length (heap w),
      snap = nothing_read,
      main = M_Persist,
      go = G_Action\<rparr>"

text \<open>\<open>Storage.Set\<close> reads one field of the object.\<close>

definition main_read :: "field \<Rightarrow> 'st create_state \<Rightarrow> 'st create_state" where
  "main_read f cs =
     (case main cs of
        M_Persist \<Rightarrow>
          if created cs < length (heap (world cs))
          then cs\<lparr>snap := read_field f (created_task cs) (snap cs)\<rparr>
          else cs\<lparr>main := M_Panicked\<rparr>
      | _ \<Rightarrow> cs)"

text \<open>
  \<open>Storage.Set\<close> writes the backend with the record as read and returns;
  \<open>PersistState\<close> masks its error and \<open>Create\<close> masks it again and returns. The
  step waits for the reads: it changes nothing while a field is still unread.
\<close>

definition main_set :: "'st Config \<Rightarrow> 'st create_state \<Rightarrow> 'st create_state" where
  "main_set ts cs =
     (case main cs of
        M_Persist \<Rightarrow>
          (case snapshot_task (snap cs) of
             None \<Rightarrow> cs
           | Some taskObject \<Rightarrow>
               (case Set (Storage ts) (store (world cs)) taskObject of
                  (Some err, s') \<Rightarrow>
                    cs\<lparr>world := (world cs)\<lparr>store := s'\<rparr>,
                       main := M_Returned (Inl (maskAny (maskAny err)))\<rparr>
                | (None, s') \<Rightarrow>
                    cs\<lparr>world := (world cs)\<lparr>store := s'\<rparr>,
                       main := M_Returned (Inr (created cs))\<rparr>))
      | _ \<Rightarrow> cs)"

text \<open>
  The main thread runs its whole call of \<open>PersistState\<close> with no step of the goroutine
  in between: it reads the fields still unread and writes. From a state in which nothing
  has been read this is the sequential \<open>PersistState\<close> of the object.
\<close>

definition main_step :: "'st Config \<Rightarrow> 'st create_state \<Rightarrow> 'st create_state" where
  "main_step ts cs =
     main_set ts (main_read Field_ID (main_read Field_FinalStatus
       (main_read Field_Error (main_read Field_ActiveStatus cs))))"

definition go_step :: "'st Config \<Rightarrow> Action \<Rightarrow> 'st create_state \<Rightarrow> 'st create_state" where
  "go_step ts action cs =
     (case go cs of
        G_Action \<Rightarrow>
          (case action () of
             Some err \<Rightarrow> cs\<lparr>go := G_Failed_ActiveStatus err\<rparr>
           | None \<Rightarrow> cs\<lparr>go := G_Succeeded_ActiveStatus\<rparr>)
      | G_Failed_ActiveStatus err \<Rightarrow>
          if created cs < length (heap (world cs)) then
            cs\<lparr>world := set_ActiveStatus (created cs) StatusStopped (world cs),
               go := G_Failed_Error err\<rparr>
          else cs\<lparr>go := G_Panicked\<rparr>
      | G_Failed_Error err \<Rightarrow>
          cs\<lparr>world := set_Error (created cs) (errorText err) (world cs),
             go := G_Failed_FinalStatus\<rparr>
      | G_Failed_FinalStatus \<Rightarrow>
          cs\<lparr>world := set_FinalStatus (created cs) StatusFailed (world cs),
             go := G_Failed_Persist\<rparr>
      | G_Failed_Persist \<Rightarrow>
          (case PersistState ts (created cs) (world cs) of
             None \<Rightarrow> cs\<lparr>go := G_Panicked\<rparr>
           | Some (Some err, w') \<Rightarrow>
               cs\<lparr>world := w'\<lparr>logged := logged w' @ [MarkAsFailed_failed (maskAny (maskAny err))]\<rparr>,
                  go := G_Done\<rparr>
           | Some (None, w') \<Rightarrow> cs\<lparr>world := w', go := G_Done\<rparr>)
      | G_Succeeded_ActiveStatus \<Rightarrow>
          if created cs < length (heap (world cs)) then
            cs\<lparr>world := set_ActiveStatus (created cs) StatusStopped (world cs),
               go := G_Succeeded_FinalStatus\<rparr>
          else cs\<lparr>go := G_Panicked\<rparr>
      | G_Succeeded_FinalStatus \<Rightarrow>
          cs\<lparr>world := set_FinalStatus (created cs) StatusSucceeded (world cs),
             go := G_Succeeded_Persist\<rparr>
      | G_Succeeded_Persist \<Rightarrow>
          (case PersistState ts (created cs) (world cs) of
             None \<Rightarrow> cs\<lparr>go := G_Panicked\<rparr>
           | Some (Some err, w') \<Rightarrow>
               cs\<lparr>world := w'\<lparr>logged := logged w' @ [MarkAsSucceeded_failed (maskAny (maskAny err))]\<rparr>,
                  go := G_Done\<rparr>
           | Some (None, w') \<Rightarrow> cs\<lparr>world := w', go := G_Done\<rparr>)
      | G_Done \<Rightarrow> cs
      | G_Panicked \<Rightarrow> cs)"

text \<open>
  A schedule names the step taken next: \<open>Go\<close> is the next statement of the goroutine,
  \<open>Main_read f\<close> the read of the field \<open>f\<close> inside the main thread's
  \<open>Storage.Set\<close>, \<open>Main_Set\<close> its write and the return, and \<open>Main\<close> the main thread's
  whole call without the goroutine in between. \<open>Create\<close> runs the two threads from the
  state after the \<open>go\<close> statement; its caller has the result as soon as \<open>main\<close> is
  \<open>M_Returned\<close>.
\<close>

datatype thread = Main | Go | Main_read field | Main_Set

fun step :: "'st Config \<Rightarrow> Action \<Rightarrow> thread \<Rightarrow> 'st create_state \<Rightarrow> 'st create_state" where
  "step ts action Main cs = main_step ts cs"
| "step ts action Go cs = go_step ts action cs"
| "step ts action (Main_read f) cs = main_read f cs"
| "step ts action Main_Set cs = main_set ts cs"

fun exec :: "'st Config \<Rightarrow> Action \<Rightarrow> thread list \<Rightarrow> 'st create_state \<Rightarrow> 'st create_state" where
  "exec ts action [] cs = cs"
| "exec ts action (t # sched) cs = exec ts action sched (step ts action t cs)"

definition Create :: "'st Config \<Rightarrow> Action \<Rightarrow> thread list \<Rightarrow> 'st world \<Rightarrow> 'st create_state" where
  "Create ts action sched w = exec ts action sched (Create_spawn w)"

text \<open>\<open>DefaultConfig\<close>: the in-memory Storage, starting from the empty map, and one second.\<close>

definition DefaultConfig :: "(string \<rightharpoonup> Task) Config" where
  "DefaultConfig = \<lparr>Storage = NewMemoryStorage, WaitSleep = 1 * 1000000000\<rparr>"

section \<open>Notions used to state the properties\<close>

text \<open>
  The read-after-write contract of section 2 of the spec: after a write that returned
  nil, a read of the written key returns the written record.
\<close>

definition read_after_write :: "'st Storage \<Rightarrow> bool" where
  "read_after_write S = (\<forall>s t s'. Set S s t = (None, s') \<longrightarrow> Get S s' (ID t) = Inr t)"

text \<open>
  Turns that leave the wait loop waiting: in each of them the timer's case was taken and
  the fetch returned a task without final status. \<open>waiting\<close> gives the time at which
  the next turn begins after such turns, and \<open>None\<close> when one of the turns ends the
  loop.
\<close>

fun waiting ::
  "'st Config \<Rightarrow> string \<Rightarrow> int option \<Rightarrow> (int \<Rightarrow> 'st) \<Rightarrow> int \<Rightarrow> turn list \<Rightarrow> int option" where
  "waiting ts taskID closer store_at t [] = Some t"
| "waiting ts taskID closer store_at t (tu # turns) =
     (case select closer (WaitSleep ts) t tu of
        Closer \<Rightarrow> None
      | Timer t' \<Rightarrow>
          (case FetchState ts taskID (store_at t') of
             Inl err \<Rightarrow> None
           | Inr taskObject \<Rightarrow>
               if HasFinalStatus taskObject then None
               else waiting ts taskID closer store_at t' turns))"

text \<open>
  The record of the created task at each program point of the goroutine, for a task with
  the ID \<open>i\<close>; \<open>None\<close> at a point that no run reaches. It is the invariant that ties
  the heap to the program counter in the proofs about \<open>Create\<close>.
\<close>

fun go_record :: "Action \<Rightarrow> string \<Rightarrow> go_pc \<Rightarrow> Task option" where
  "go_record action i G_Action =
     Some \<lparr>ActiveStatus = StatusStarted, Error = '''', FinalStatus = StatusEmpty, ID = i\<rparr>"
| "go_record action i (G_Failed_ActiveStatus err) =
     (if action () = Some err
      then Some \<lparr>ActiveStatus = StatusStarted, Error = '''', FinalStatus = StatusEmpty, ID = i\<rparr>
      else None)"
| "go_record action i (G_Failed_Error err) =
     (if action () = Some err
      then Some \<lparr>ActiveStatus = StatusStopped, Error = '''', FinalStatus = StatusEmpty, ID = i\<rparr>
      else None)"
| "go_record action i G_Failed_FinalStatus =
     (case action () of
        Some err \<Rightarrow>
          Some \<lparr>ActiveStatus = StatusStopped, Error = errorText err, FinalStatus = StatusEmpty, ID = i\<rparr>
      | None \<Rightarrow> None)"
| "go_record action i G_Failed_Persist =
     (case action () of
        Some err \<Rightarrow>
          Some \<lparr>ActiveStatus = StatusStopped, Error = errorText err, FinalStatus = StatusFailed, ID = i\<rparr>
      | None \<Rightarrow> None)"
| "go_record action i G_Succeeded_ActiveStatus =
     (if action () = None
      then Some \<lparr>ActiveStatus = StatusStarted, Error = '''', FinalStatus = StatusEmpty, ID = i\<rparr>
      else None)"
| "go_record action i G_Succeeded_FinalStatus =
     (if action () = None
      then Some \<lparr>ActiveStatus = StatusStopped, Error = '''', FinalStatus = StatusEmpty, ID = i\<rparr>
      else None)"
| "go_record action i G_Succeeded_Persist =
     (if action () = None
      then Some \<lparr>ActiveStatus = StatusStopped, Error = '''', FinalStatus = StatusSucceeded, ID = i\<rparr>
      else None)"
| "go_record action i G_Done =
     (case action () of
        Some err \<Rightarrow>
          Some \<lparr>ActiveStatus = StatusStopped, Error = errorText err, FinalStatus = StatusFailed, ID = i\<rparr>
      | None \<Rightarrow>
          Some \<lparr>ActiveStatus = StatusStopped, Error = '''', FinalStatus = StatusSucceeded, ID = i\<rparr>)"
| "go_record action i G_Panicked = None"

definition create_inv :: "Action \<Rightarrow> string \<Rightarrow> nat \<Rightarrow> 'st create_state \<Rightarrow> bool" where
  "create_inv action i p cs =
     (created cs = p \<and> p < length (heap (world cs)) \<and> main cs \<noteq> M_Panicked \<and>
      Some (heap (world cs) ! p) = go_record action i (go cs))"


text \<open>The number of steps the goroutine still has to take.\<close>

fun go_remaining :: "go_pc \<Rightarrow> nat" where
  "go_remaining G_Action = 5"
| "go_remaining (G_Failed_ActiveStatus err) = 4"
| "go_remaining (G_Failed_Error err) = 3"
| "go_remaining G_Failed_FinalStatus = 2"
| "go_remaining G_Failed_Persist = 1"
| "go_remaining G_Succeeded_ActiveStatus = 3"
| "go_remaining G_Succeeded_FinalStatus = 2"
| "go_remaining G_Succeeded_Persist = 1"
| "go_remaining G_Done = 0"
| "go_remaining G_Panicked = 0"



text \<open>The record behind the pointer an operation returned, if it returned one.\<close>

fun returned_task :: "((error + ptr) \<times> 'st world) option \<Rightarrow> Task option" where
  "returned_task None = None"
| "returned_task (Some (Inl err, w)) = None"
| "returned_task (Some (Inr p, w)) = Some (heap w ! p)"

section \<open>Concrete services, worlds and actions\<close>

text \<open>
  The inputs on which the properties are run: a service on the Storage whose writes fail
  on schedule, services that differ from the default one in \<open>WaitSleep\<close> only, a task
  object as \<open>Create\<close> allocates it, a world holding that object with a UUID generator
  that never repeats itself, an action that fails with "disk full" and one that returns
  nil.
\<close>

definition ZeroSleepConfig :: "(string \<rightharpoonup> Task) Config" where
  "ZeroSleepConfig = DefaultConfig\<lparr>WaitSleep := 0\<rparr>"

definition ShortSleepConfig :: "(string \<rightharpoonup> Task) Config" where
  "ShortSleepConfig = DefaultConfig\<lparr>WaitSleep := 1\<rparr>"

definition FlakyConfig :: "(bool list \<times> (string \<rightharpoonup> Task)) Config" where
  "FlakyConfig = \<lparr>Storage = FlakyStorage, WaitSleep = 1000000000\<rparr>"

definition task1 :: Task where
  "task1 = \<lparr>ActiveStatus = StatusStarted, Error = '''', FinalStatus = StatusEmpty, ID = ''task-1''\<rparr>"

definition world1 :: "'st \<Rightarrow> 'st world" where
  "world1 s =
     \<lparr>heap = [task1], store = s, uuid_gen = (\<lambda>n. ''uuid-'' @ replicate n CHR ''x''),
      uuid_calls = 0, logged = []\<rparr>"

definition disk_full :: Action where
  "disk_full = (\<lambda>_. Some (Err ActionError ''disk full''))"

definition no_error :: Action where
  "no_error = (\<lambda>_. None)"

definition MemoryWorld :: "(string \<rightharpoonup> Task) world" where
  "MemoryWorld = world1 Map.empty"

definition FlakyWorld :: "bool list \<Rightarrow> (bool list \<times> (string \<rightharpoonup> Task)) world" where
  "FlakyWorld fs = world1 (fs, Map.empty)"

text \<open>\<open>task1\<close> after it has succeeded, and after it has failed with "disk full".\<close>

definition succeeded1 :: Task where
  "succeeded1 =
     \<lparr>ActiveStatus = StatusStopped, Error = '''', FinalStatus = StatusSucceeded, ID = ''task-1''\<rparr>"

definition failed1 :: Task where
  "failed1 =
     \<lparr>ActiveStatus = StatusStopped, Error = ''disk full'', FinalStatus = StatusFailed,
      ID = ''task-1''\<rparr>"

text \<open>
  Storages over time, as the wait loop finds them: one that holds \<open>task1\<close> succeeded
  at all times, one that holds it started before time 2500000000 and succeeded from then
  on, and one that loses it at that time.
\<close>

definition succeeded_at :: "int \<Rightarrow> (string \<rightharpoonup> Task)" where
  "succeeded_at t = [''task-1'' \<mapsto> succeeded1]"

definition succeeds_later :: "int \<Rightarrow> (string \<rightharpoonup> Task)" where
  "succeeds_later t =
     (if t < 2500000000 then [''task-1'' \<mapsto> task1] else [''task-1'' \<mapsto> succeeded1])"

definition lost_later :: "int \<Rightarrow> (string \<rightharpoonup> Task)" where
  "lost_later t = (if t < 2500000000 then [''task-1'' \<mapsto> task1] else Map.empty)"

text \<open>The world after \<open>task1\<close> has been marked as failed with "disk full".\<close>

definition FailedWorld :: "(string \<rightharpoonup> Task) world" where
  "FailedWorld =
     (case MarkAsFailedWithError DefaultConfig 0 (Err ActionError ''disk full'') MemoryWorld of
        Some (res, w) \<Rightarrow> w
      | None \<Rightarrow> MemoryWorld)"


section \<open>Lemmas about the operations\<close>

lemma MarkAsFailedWithError_unfold:
  assumes "p < length (heap w)"
  shows "MarkAsFailedWithError ts p err w =
     Some (case fst (Set (Storage ts) (store w)
                  ((heap w ! p)\<lparr>ActiveStatus := StatusStopped, Error := errorText err,
                                FinalStatus := StatusFailed\<rparr>)) of
             None \<Rightarrow> Inr p
           | Some e \<Rightarrow> Inl (maskAny (maskAny e)),
           w\<lparr>heap := (heap w)[p := (heap w ! p)\<lparr>ActiveStatus := StatusStopped,
                                Error := errorText err, FinalStatus := StatusFailed\<rparr>],
             store := snd (Set (Storage ts) (store w)
                  ((heap w ! p)\<lparr>ActiveStatus := StatusStopped, Error := errorText err,
                                FinalStatus := StatusFailed\<rparr>))\<rparr>)"
  using assms
  by (simp add: MarkAsFailedWithError_def PersistState_def set_ActiveStatus_def set_Error_def
      set_FinalStatus_def Let_def split: prod.splits option.splits)

lemma MarkAsSucceeded_unfold:
  assumes "p < length (heap w)"
  shows "MarkAsSucceeded ts p w =
     Some (case fst (Set (Storage ts) (store w)
                  ((heap w ! p)\<lparr>ActiveStatus := StatusStopped, FinalStatus := StatusSucceeded\<rparr>)) of
             None \<Rightarrow> Inr p
           | Some e \<Rightarrow> Inl (maskAny (maskAny e)),
           w\<lparr>heap := (heap w)[p := (heap w ! p)\<lparr>ActiveStatus := StatusStopped,
                                FinalStatus := StatusSucceeded\<rparr>],
             store := snd (Set (Storage ts) (store w)
                  ((heap w ! p)\<lparr>ActiveStatus := StatusStopped, FinalStatus := StatusSucceeded\<rparr>))\<rparr>)"
  using assms
  by (simp add: MarkAsSucceeded_def PersistState_def set_ActiveStatus_def
      set_FinalStatus_def Let_def split: prod.splits option.splits)

lemma PersistState_valid:
  "p < length (heap w) \<Longrightarrow>
   PersistState ts p w =
     Some (map_option maskAny (fst (Set (Storage ts) (store w) (heap w ! p))),
           w\<lparr>store := snd (Set (Storage ts) (store w) (heap w ! p))\<rparr>)"
  by (simp add: PersistState_def split: prod.splits option.splits)

lemma PersistState_nil:
  "\<not> p < length (heap w) \<Longrightarrow>
   PersistState ts p w =
     (case Set_nil (Storage ts) (store w) of
        None \<Rightarrow> None
      | Some (e, s') \<Rightarrow> Some (map_option maskAny e, w\<lparr>store := s'\<rparr>))"
  by (simp add: PersistState_def split: prod.splits option.splits)

lemma main_read_frame:
  "world (main_read f cs) = world cs"
  "created (main_read f cs) = created cs"
  "go (main_read f cs) = go cs"
  by (cases "main cs"; simp add: main_read_def)+

lemma main_read_main:
  "created cs < length (heap (world cs)) \<Longrightarrow> main (main_read f cs) = main cs"
  by (cases "main cs") (simp_all add: main_read_def)


lemma main_set_frame:
  "heap (world (main_set ts cs)) = heap (world cs)"
  "uuid_gen (world (main_set ts cs)) = uuid_gen (world cs)"
  "uuid_calls (world (main_set ts cs)) = uuid_calls (world cs)"
  "logged (world (main_set ts cs)) = logged (world cs)"
  "created (main_set ts cs) = created cs"
  "snap (main_set ts cs) = snap cs"
  "go (main_set ts cs) = go cs"
  by (cases "main cs"; simp add: main_set_def split: option.splits prod.splits)+

lemma main_set_not_panicked:
  "main cs \<noteq> M_Panicked \<Longrightarrow> main (main_set ts cs) \<noteq> M_Panicked"
  by (cases "main cs") (simp_all add: main_set_def split: option.splits prod.splits)


lemma main_step_frame:
  assumes "created cs < length (heap (world cs))"
  shows "heap (world (main_step ts cs)) = heap (world cs)"
    "uuid_gen (world (main_step ts cs)) = uuid_gen (world cs)"
    "uuid_calls (world (main_step ts cs)) = uuid_calls (world cs)"
    "logged (world (main_step ts cs)) = logged (world cs)"
    "created (main_step ts cs) = created cs"
    "go (main_step ts cs) = go cs"
  by (simp_all add: main_step_def main_set_frame main_read_frame)

lemma main_step_not_panicked:
  assumes "created cs < length (heap (world cs))" "main cs \<noteq> M_Panicked"
  shows "main (main_step ts cs) \<noteq> M_Panicked"
  unfolding main_step_def using assms
  by (intro main_set_not_panicked) (simp add: main_read_main main_read_frame)


lemma main_read_inv:
  "create_inv action i p cs \<Longrightarrow> create_inv action i p (main_read f cs)"
  by (simp add: create_inv_def main_read_frame main_read_main)

lemma main_set_inv:
  "create_inv action i p cs \<Longrightarrow> create_inv action i p (main_set ts cs)"
  by (simp add: create_inv_def main_set_frame main_set_not_panicked)

lemma main_step_inv:
  "create_inv action i p cs \<Longrightarrow> create_inv action i p (main_step ts cs)"
  by (simp add: main_step_def main_read_inv main_set_inv)

lemma go_step_inv:
  "create_inv action i p cs \<Longrightarrow> create_inv action i p (go_step ts action cs)"
  by (cases "go cs")
     (auto simp add: create_inv_def go_step_def PersistState_valid set_ActiveStatus_def
        set_Error_def set_FinalStatus_def split: option.splits if_splits)

lemma step_inv:
  "create_inv action i p cs \<Longrightarrow> create_inv action i p (step ts action t cs)"
  by (cases t) (simp_all add: main_step_inv go_step_inv main_read_inv main_set_inv)

lemma exec_inv:
  "create_inv action i p cs \<Longrightarrow> create_inv action i p (exec ts action sched cs)"
  by (induction sched arbitrary: cs) (simp_all add: step_inv)

lemma spawn_inv:
  "create_inv action (uuid_gen w (uuid_calls w)) (length (heap w)) (Create_spawn w)"
  by (simp add: create_inv_def Create_spawn_def)

lemma Create_inv:
  "create_inv action (uuid_gen w (uuid_calls w)) (length (heap w)) (Create ts action sched w)"
  unfolding Create_def by (rule exec_inv) (rule spawn_inv)


lemma step_frame:
  assumes "created cs < length (heap (world cs))"
  shows "created (step ts action t cs) = created cs \<and>
         length (heap (world (step ts action t cs))) = length (heap (world cs)) \<and>
         take (created cs) (heap (world (step ts action t cs))) = take (created cs) (heap (world cs)) \<and>
         uuid_gen (world (step ts action t cs)) = uuid_gen (world cs) \<and>
         uuid_calls (world (step ts action t cs)) = uuid_calls (world cs)"
proof (cases t)
  case Main
  then show ?thesis using assms by (simp add: main_step_frame)
next
  case Go
  then show ?thesis using assms
    by (cases "go cs")
       (auto simp add: go_step_def PersistState_valid set_ActiveStatus_def set_Error_def
          set_FinalStatus_def split: option.splits)
next
  case (Main_read f)
  then show ?thesis by (simp add: main_read_frame)
next
  case Main_Set
  then show ?thesis by (simp add: main_set_frame)
qed

lemma exec_frame:
  assumes "created cs < length (heap (world cs))"
  shows "created (exec ts action sched cs) = created cs \<and>
         length (heap (world (exec ts action sched cs))) = length (heap (world cs)) \<and>
         take (created cs) (heap (world (exec ts action sched cs))) = take (created cs) (heap (world cs)) \<and>
         uuid_gen (world (exec ts action sched cs)) = uuid_gen (world cs) \<and>
         uuid_calls (world (exec ts action sched cs)) = uuid_calls (world cs)"
  using assms
proof (induction sched arbitrary: cs)
  case Nil
  then show ?case by simp
next
  case (Cons t sched)
  note f = step_frame [OF Cons.prems, of ts action t]
  have "created (step ts action t cs) < length (heap (world (step ts action t cs)))"
    using f Cons.prems by simp
  from Cons.IH [OF this] f show ?case by simp
qed

lemma Create_frame:
  "created (Create ts action sched w) = length (heap w) \<and>
   length (heap (world (Create ts action sched w))) = Suc (length (heap w)) \<and>
   take (length (heap w)) (heap (world (Create ts action sched w))) = heap w \<and>
   uuid_gen (world (Create ts action sched w)) = uuid_gen w \<and>
   uuid_calls (world (Create ts action sched w)) = Suc (uuid_calls w)"
proof -
  have "created (Create_spawn w) < length (heap (world (Create_spawn w)))"
    by (simp add: Create_spawn_def)
  from exec_frame [OF this, of ts action sched] show ?thesis
    by (simp add: Create_def Create_spawn_def)
qed


lemma step_go_remaining:
  assumes "create_inv action i p cs"
  shows "go_remaining (go (step ts action t cs)) =
           (if t = Go then go_remaining (go cs) - 1 else go_remaining (go cs)) \<or>
         (t = Go \<and> go cs = G_Action \<and> action () = None \<and> go_remaining (go (step ts action t cs)) = 3)"
proof (cases t)
  case Main
  then show ?thesis using assms
    by (simp add: main_step_frame create_inv_def)
next
  case Go
  then show ?thesis using assms
    by (cases "go cs")
       (auto simp add: go_step_def create_inv_def PersistState_valid split: option.splits)
next
  case (Main_read f)
  then show ?thesis by (simp add: main_read_frame)
next
  case Main_Set
  then show ?thesis by (simp add: main_set_frame)
qed

lemma exec_go_remaining:
  assumes "create_inv action i p cs"
  shows "go_remaining (go (exec ts action sched cs)) \<le> go_remaining (go cs) - count_list sched Go"
  using assms
proof (induction sched arbitrary: cs)
  case Nil
  then show ?case by simp
next
  case (Cons t sched)
  have inv': "create_inv action i p (step ts action t cs)"
    using Cons.prems by (rule step_inv)
  from Cons.IH [OF inv'] step_go_remaining [OF Cons.prems, of ts t]
  show ?case by (cases "t = Go") auto
qed

lemma go_remaining_0:
  "create_inv action i p cs \<Longrightarrow> go_remaining (go cs) = 0 \<Longrightarrow> go cs = G_Done"
  by (cases "go cs") (auto simp add: create_inv_def)

lemma Create_done:
  assumes "5 \<le> count_list sched Go"
  shows "go (Create ts action sched w) = G_Done"
proof -
  have "go_remaining (go (Create ts action sched w)) \<le> go_remaining (go (Create_spawn w)) - count_list sched Go"
    unfolding Create_def by (rule exec_go_remaining) (rule spawn_inv)
  then have "go_remaining (go (Create ts action sched w)) = 0"
    using assms by (simp add: Create_spawn_def)
  with Create_inv show ?thesis by (rule go_remaining_0)
qed










lemma main_read_snap:
  "main cs = M_Persist \<Longrightarrow> created cs < length (heap (world cs)) \<Longrightarrow>
   snap (main_read f cs) = read_field f (created_task cs) (snap cs)"
  by (simp add: main_read_def)

lemma main_read_created_task: "created_task (main_read f cs) = created_task cs"
  by (simp add: created_task_def main_read_frame)

lemma main_reads_snap:
  assumes "main cs = M_Persist" "created cs < length (heap (world cs))"
  shows "snap (main_read Field_ID (main_read Field_FinalStatus
           (main_read Field_Error (main_read Field_ActiveStatus cs)))) =
         read_field Field_ID (created_task cs) (read_field Field_FinalStatus (created_task cs)
           (read_field Field_Error (created_task cs)
             (read_field Field_ActiveStatus (created_task cs) (snap cs))))"
  using assms
  by (simp add: main_read_snap main_read_main main_read_frame main_read_created_task
      del: read_field.simps)


lemma read_fields_nothing_read:
  "snapshot_task (read_field Field_ID t (read_field Field_FinalStatus t
      (read_field Field_Error t (read_field Field_ActiveStatus t nothing_read)))) = Some t"
  by (simp add: snapshot_task_def nothing_read_def)

lemma read_all_fields:
  assumes "main cs = M_Persist" "created cs < length (heap (world cs))" "snap cs = nothing_read"
  shows "snapshot_task (snap (main_read Field_ID (main_read Field_FinalStatus
           (main_read Field_Error (main_read Field_ActiveStatus cs))))) = Some (created_task cs)"
  using assms by (simp only: main_reads_snap read_fields_nothing_read)

lemma main_set_Persist:
  assumes "main cs = M_Persist" "snapshot_task (snap cs) = Some r"
  shows "store (world (main_set ts cs)) = snd (Set (Storage ts) (store (world cs)) r)"
    and "main (main_set ts cs) =
           M_Returned (case fst (Set (Storage ts) (store (world cs)) r) of
                         None \<Rightarrow> Inr (created cs)
                       | Some e \<Rightarrow> Inl (maskAny (maskAny e)))"
  using assms by (simp_all add: main_set_def split: option.splits prod.splits)


lemma main_step_Persist:
  assumes "main cs = M_Persist" "created cs < length (heap (world cs))" "snap cs = nothing_read"
  shows "store (world (main_step ts cs)) =
           snd (Set (Storage ts) (store (world cs)) (created_task cs))"
    and "main (main_step ts cs) =
           M_Returned (case fst (Set (Storage ts) (store (world cs)) (created_task cs)) of
                         None \<Rightarrow> Inr (created cs)
                       | Some e \<Rightarrow> Inl (maskAny (maskAny e)))"
proof -
  let ?cs = "main_read Field_ID (main_read Field_FinalStatus
               (main_read Field_Error (main_read Field_ActiveStatus cs)))"
  have m: "main ?cs = M_Persist"
    using assms(1,2) by (simp add: main_read_main main_read_frame)
  have r: "snapshot_task (snap ?cs) = Some (created_task cs)"
    using assms by (rule read_all_fields)
  have w: "world ?cs = world cs" "created ?cs = created cs"
    by (simp_all add: main_read_frame)
  from main_set_Persist(1) [OF m r, of ts]
  show "store (world (main_step ts cs)) =
           snd (Set (Storage ts) (store (world cs)) (created_task cs))"
    unfolding main_step_def w .
  from main_set_Persist(2) [OF m r, of ts]
  show "main (main_step ts cs) =
           M_Returned (case fst (Set (Storage ts) (store (world cs)) (created_task cs)) of
                         None \<Rightarrow> Inr (created cs)
                       | Some e \<Rightarrow> Inl (maskAny (maskAny e)))"
    unfolding main_step_def w .
qed

lemma main_step_PersistState:
  assumes "main cs = M_Persist" "created cs < length (heap (world cs))" "snap cs = nothing_read"
  shows "\<exists>r w'. PersistState ts (created cs) (world cs) = Some (r, w') \<and>
           world (main_step ts cs) = w' \<and>
           main (main_step ts cs) =
             M_Returned (case r of None \<Rightarrow> Inr (created cs) | Some err \<Rightarrow> Inl (maskAny err))"
proof -
  have h: "heap (world (main_step ts cs)) = heap (world cs)"
    "uuid_gen (world (main_step ts cs)) = uuid_gen (world cs)"
    "uuid_calls (world (main_step ts cs)) = uuid_calls (world cs)"
    "logged (world (main_step ts cs)) = logged (world cs)"
    using assms(2) by (simp_all add: main_step_frame)
  have "world (main_step ts cs) =
          (world cs)\<lparr>store := snd (Set (Storage ts) (store (world cs)) (created_task cs))\<rparr>"
    using h main_step_Persist(1) [OF assms, of ts] by simp
  then show ?thesis
    using assms(2) main_step_Persist(2) [OF assms, of ts]
    by (simp add: PersistState_valid created_task_def split: option.splits)
qed










section \<open>Lemmas about the wait loop\<close>

lemma waiting_prefix:
  "waiting ts taskID closer store_at t pre = Some t' \<Longrightarrow>
   WaitForFinalStatus ts taskID closer store_at t (pre @ turns) =
     WaitForFinalStatus ts taskID closer store_at t' turns"
proof (induction pre arbitrary: t)
  case Nil
  then show ?case by simp
next
  case (Cons tu pre)
  then show ?case
    by (auto split: select_case.splits sum.splits if_splits)
qed

lemma FetchState_Inl:
  "Get (Storage ts) s taskID = Inl err \<Longrightarrow> FetchState ts taskID s = Inl (maskAny err)"
  by (simp add: FetchState_def)

lemma Wait_returns_cases:
  "WaitForFinalStatus ts taskID closer store_at t turns = Some r \<Longrightarrow>
     (\<exists>pre tu rest t'. turns = pre @ tu # rest \<and>
         waiting ts taskID closer store_at t pre = Some t' \<and>
         select closer (WaitSleep ts) t' tu = Closer \<and> r = (None, None)) \<or>
     (\<exists>pre tu rest t' t'' task. turns = pre @ tu # rest \<and>
         waiting ts taskID closer store_at t pre = Some t' \<and>
         select closer (WaitSleep ts) t' tu = Timer t'' \<and>
         FetchState ts taskID (store_at t'') = Inr task \<and> FinalStatus task \<noteq> StatusEmpty \<and>
         r = (Some task, None)) \<or>
     (\<exists>pre tu rest t' t'' err. turns = pre @ tu # rest \<and>
         waiting ts taskID closer store_at t pre = Some t' \<and>
         select closer (WaitSleep ts) t' tu = Timer t'' \<and>
         Get (Storage ts) (store_at t'') taskID = Inl err \<and>
         r = (None, Some (maskAny (maskAny err))))"
proof (induction turns arbitrary: t)
  case Nil
  then show ?case by simp
next
  case (Cons tu turns)
  show ?case
  proof (cases "select closer (WaitSleep ts) t tu")
    case Closer
    with Cons.prems have "tu # turns = [] @ tu # turns \<and>
        waiting ts taskID closer store_at t [] = Some t \<and>
        select closer (WaitSleep ts) t tu = Closer \<and> r = (None, None)"
      by auto
    then show ?thesis by (intro disjI1 exI)
  next
    case (Timer t1)
    show ?thesis
    proof (cases "FetchState ts taskID (store_at t1)")
      case (Inl e)
      then obtain err where g: "Get (Storage ts) (store_at t1) taskID = Inl err" "e = maskAny err"
        by (auto simp add: FetchState_def split: sum.splits)
      with Cons.prems Timer Inl
      have "tu # turns = [] @ tu # turns \<and>
            waiting ts taskID closer store_at t [] = Some t \<and>
            select closer (WaitSleep ts) t tu = Timer t1 \<and>
            Get (Storage ts) (store_at t1) taskID = Inl err \<and>
            r = (None, Some (maskAny (maskAny err)))"
        by auto
      then show ?thesis by (intro disjI2 exI)
    next
      case (Inr task)
      show ?thesis
      proof (cases "HasFinalStatus task")
        case True
        with Cons.prems Timer Inr
        have "tu # turns = [] @ tu # turns \<and>
              waiting ts taskID closer store_at t [] = Some t \<and>
              select closer (WaitSleep ts) t tu = Timer t1 \<and>
              FetchState ts taskID (store_at t1) = Inr task \<and> FinalStatus task \<noteq> StatusEmpty \<and>
              r = (Some task, None)"
          by (auto simp add: HasFinalStatus_def)
        then show ?thesis by (intro disjI2 disjI1 exI)
      next
        case False
        with Cons.prems Timer Inr
        have w: "WaitForFinalStatus ts taskID closer store_at t1 turns = Some r"
          by simp
        have p: "waiting ts taskID closer store_at t (tu # pre) =
                 waiting ts taskID closer store_at t1 pre" for pre
          using Timer Inr False by simp
        from Cons.IH [OF w] show ?thesis
        proof (elim disjE exE conjE)
          fix pre tu' rest t'
          assume "turns = pre @ tu' # rest" "waiting ts taskID closer store_at t1 pre = Some t'"
            "select closer (WaitSleep ts) t' tu' = Closer" "r = (None, None)"
          with p have "tu # turns = (tu # pre) @ tu' # rest \<and>
              waiting ts taskID closer store_at t (tu # pre) = Some t' \<and>
              select closer (WaitSleep ts) t' tu' = Closer \<and> r = (None, None)"
            by simp
          then show ?thesis by (intro disjI1 exI)
        next
          fix pre tu' rest t' t'' task'
          assume "turns = pre @ tu' # rest" "waiting ts taskID closer store_at t1 pre = Some t'"
            "select closer (WaitSleep ts) t' tu' = Timer t''"
            "FetchState ts taskID (store_at t'') = Inr task'" "FinalStatus task' \<noteq> StatusEmpty"
            "r = (Some task', None)"
          with p have "tu # turns = (tu # pre) @ tu' # rest \<and>
              waiting ts taskID closer store_at t (tu # pre) = Some t' \<and>
              select closer (WaitSleep ts) t' tu' = Timer t'' \<and>
              FetchState ts taskID (store_at t'') = Inr task' \<and>
              FinalStatus task' \<noteq> StatusEmpty \<and> r = (Some task', None)"
            by simp
          then show ?thesis by (intro disjI2 disjI1 exI)
        next
          fix pre tu' rest t' t'' err
          assume "turns = pre @ tu' # rest" "waiting ts taskID closer store_at t1 pre = Some t'"
            "select closer (WaitSleep ts) t' tu' = Timer t''"
            "Get (Storage ts) (store_at t'') taskID = Inl err"
            "r = (None, Some (maskAny (maskAny err)))"
          with p have "tu # turns = (tu # pre) @ tu' # rest \<and>
              waiting ts taskID closer store_at t (tu # pre) = Some t' \<and>
              select closer (WaitSleep ts) t' tu' = Timer t'' \<and>
              Get (Storage ts) (store_at t'') taskID = Inl err \<and>
              r = (None, Some (maskAny (maskAny err)))"
            by simp
          then show ?thesis by (intro disjI2 exI)
        qed
      qed
    qed
  qed
qed

lemma select_fired:
  assumes "fired \<le> t"
  shows "select (Some fired) d t tu =
           (if int (delay tu) < d \<or> pick tu = PickCloser then Closer
            else Timer (t + int (delay tu)))"
  using assms by (auto simp add: select_def Let_def max_def)

lemma select_never: "select None d t tu = Timer (max (t + max 0 d) (t + int (delay tu)))"
  by (simp add: select_def Let_def)

lemma Wait_never_closed:
  "WaitForFinalStatus ts taskID None store_at t turns \<noteq> Some (None, None)"
  by (induction turns arbitrary: t) (auto simp add: select_never split: sum.splits)

lemma select_before_timer:
  "fired < t + d \<Longrightarrow> int (delay tu) < d \<Longrightarrow> select (Some fired) d t tu = Closer"
  by (auto simp add: select_def Let_def max_def)

section \<open>Lemmas about Create, the Storage and the concrete worlds\<close>

lemma NewMemoryStorage_read_after_write: "read_after_write NewMemoryStorage"
  by (simp add: read_after_write_def NewMemoryStorage_def)

lemma FlakyStorage_read_after_write: "read_after_write FlakyStorage"
  by (auto simp add: read_after_write_def FlakyStorage_def split: list.splits if_splits)






















lemmas eval_defs = Create_def Create_spawn_def main_step_def main_read_def main_set_def
  nothing_read_def snapshot_task_def go_step_def PersistState_def
  set_ActiveStatus_def set_Error_def set_FinalStatus_def created_task_def
  MemoryWorld_def FlakyWorld_def world1_def task1_def DefaultConfig_def FlakyConfig_def
  NewMemoryStorage_def FlakyStorage_def no_error_def disk_full_def FetchState_def




lemma Create_go_record:
  "Some (created_task (Create ts action sched w)) =
     go_record action (uuid_gen w (uuid_calls w)) (go (Create ts action sched w))"
  using Create_inv [of action w ts sched]
  by (simp add: create_inv_def created_task_def Create_frame)




lemma go_record_ID: "Some t = go_record action i pc \<Longrightarrow> ID t = i"
  by (cases pc) (auto split: if_splits option.splits)


lemma go_record_Error:
  "Some t = go_record action i pc \<Longrightarrow> Error t \<noteq> '''' \<Longrightarrow>
   (\<exists>err. action () = Some err \<and> Error t = errorText err) \<and>
   ActiveStatus t = StatusStopped \<and>
   (FinalStatus t = StatusFailed \<or> pc = G_Failed_FinalStatus)"
  by (cases pc) (auto split: if_splits option.splits)

lemma go_record_Succeeded:
  "Some t = go_record action i pc \<Longrightarrow> FinalStatus t = StatusSucceeded \<Longrightarrow> Error t = ''''"
  by (cases pc) (auto split: if_splits option.splits)



section \<open>The claims\<close>

text \<open>
  C1, as amended. \<open>WaitForFinalStatus\<close> has three outcomes. After any number of turns
  that left it waiting: when the \<open>select\<close> takes the closer's case it returns
  \<open>(nil, nil)\<close>; when it takes the timer's case and the fetch returns a task whose
  \<open>FinalStatus\<close> is not empty it returns \<open>(task, nil)\<close>; when the fetch fails, with
  whatever error \<open>Storage.Get\<close> gave (NotFound included), it returns \<open>(nil, error)\<close>,
  the error masked by \<open>FetchState\<close> and again by the loop. While every turn leaves it
  waiting it has not returned. Conversely every result it returns arises in one of these
  three ways. A closer that never fires is never the case taken; a closer that fires
  before the timer of the turn runs out, the \<open>select\<close> being at its cases by then,
  is the case taken, and the call returns \<open>(nil, nil)\<close>. When the closer has
  fired before the call, the result is \<open>(nil, nil)\<close> for every task ID and whatever the
  Storage holds then or later, provided that the timer of the first turn has not run out
  when the \<open>select\<close> looks at its cases (so \<open>WaitSleep\<close> is positive), or that the
  runtime's choice among the two cases falls on the closer. When that timer has run out
  and the choice falls on it, the call polls: it returns the task of that fetch if the
  task has a final status.
\<close>

theorem WaitForFinalStatus_three_outcomes:
  "(waiting ts taskID closer store_at t pre = Some t' \<longrightarrow>
      (select closer (WaitSleep ts) t' tu = Closer \<longrightarrow>
         WaitForFinalStatus ts taskID closer store_at t (pre @ tu # rest) = Some (None, None)) \<and>
      (\<forall>t'' task. select closer (WaitSleep ts) t' tu = Timer t'' \<and>
           FetchState ts taskID (store_at t'') = Inr task \<and> FinalStatus task \<noteq> StatusEmpty \<longrightarrow>
         WaitForFinalStatus ts taskID closer store_at t (pre @ tu # rest) =
           Some (Some task, None)) \<and>
      (\<forall>t'' err. select closer (WaitSleep ts) t' tu = Timer t'' \<and>
           Get (Storage ts) (store_at t'') taskID = Inl err \<longrightarrow>
         WaitForFinalStatus ts taskID closer store_at t (pre @ tu # rest) =
           Some (None, Some (maskAny (maskAny err)))) \<and>
      WaitForFinalStatus ts taskID closer store_at t pre = None) \<and>
   (WaitForFinalStatus ts taskID closer store_at t turns = Some r \<longrightarrow>
      (\<exists>pre tu rest t'. turns = pre @ tu # rest \<and>
         waiting ts taskID closer store_at t pre = Some t' \<and>
         select closer (WaitSleep ts) t' tu = Closer \<and> r = (None, None)) \<or>
      (\<exists>pre tu rest t' t'' task. turns = pre @ tu # rest \<and>
         waiting ts taskID closer store_at t pre = Some t' \<and>
         select closer (WaitSleep ts) t' tu = Timer t'' \<and>
         FetchState ts taskID (store_at t'') = Inr task \<and> FinalStatus task \<noteq> StatusEmpty \<and>
         r = (Some task, None)) \<or>
      (\<exists>pre tu rest t' t'' err. turns = pre @ tu # rest \<and>
         waiting ts taskID closer store_at t pre = Some t' \<and>
         select closer (WaitSleep ts) t' tu = Timer t'' \<and>
         Get (Storage ts) (store_at t'') taskID = Inl err \<and>
         r = (None, Some (maskAny (maskAny err))))) \<and>
   WaitForFinalStatus ts taskID None store_at t turns \<noteq> Some (None, None) \<and>
   (waiting ts taskID (Some fired) store_at t pre = Some t' \<and>
    fired < t' + WaitSleep ts \<and> int (delay tu) < WaitSleep ts \<longrightarrow>
      WaitForFinalStatus ts taskID (Some fired) store_at t (pre @ tu # rest) = Some (None, None)) \<and>
   (fired \<le> t \<and> (int (delay tu) < WaitSleep ts \<or> pick tu = PickCloser) \<longrightarrow>
      WaitForFinalStatus ts taskID (Some fired) store_at t (tu # turns) = Some (None, None)) \<and>
   (fired \<le> t \<and> WaitSleep ts \<le> int (delay tu) \<and> pick tu = PickTimer \<longrightarrow>
      (\<forall>task. FetchState ts taskID (store_at (t + int (delay tu))) = Inr task \<and>
           FinalStatus task \<noteq> StatusEmpty \<longrightarrow>
         WaitForFinalStatus ts taskID (Some fired) store_at t (tu # turns) =
           Some (Some task, None)))"
proof (intro conjI impI allI)
  assume w: "waiting ts taskID closer store_at t pre = Some t'"
    and "select closer (WaitSleep ts) t' tu = Closer"
  then show "WaitForFinalStatus ts taskID closer store_at t (pre @ tu # rest) = Some (None, None)"
    by (simp add: waiting_prefix)
next
  fix t'' task
  assume w: "waiting ts taskID closer store_at t pre = Some t'"
    and "select closer (WaitSleep ts) t' tu = Timer t'' \<and>
           FetchState ts taskID (store_at t'') = Inr task \<and> FinalStatus task \<noteq> StatusEmpty"
  then show "WaitForFinalStatus ts taskID closer store_at t (pre @ tu # rest) =
           Some (Some task, None)"
    by (simp add: waiting_prefix HasFinalStatus_def)
next
  fix t'' err
  assume w: "waiting ts taskID closer store_at t pre = Some t'"
    and "select closer (WaitSleep ts) t' tu = Timer t'' \<and>
           Get (Storage ts) (store_at t'') taskID = Inl err"
  then show "WaitForFinalStatus ts taskID closer store_at t (pre @ tu # rest) =
           Some (None, Some (maskAny (maskAny err)))"
    by (simp add: waiting_prefix FetchState_Inl del: maskAny.simps)
next
  assume "waiting ts taskID closer store_at t pre = Some t'"
  from waiting_prefix [OF this, of "[]"]
  show "WaitForFinalStatus ts taskID closer store_at t pre = None"
    by simp
next
  assume "WaitForFinalStatus ts taskID closer store_at t turns = Some r"
  then show "(\<exists>pre tu rest t'. turns = pre @ tu # rest \<and>
         waiting ts taskID closer store_at t pre = Some t' \<and>
         select closer (WaitSleep ts) t' tu = Closer \<and> r = (None, None)) \<or>
      (\<exists>pre tu rest t' t'' task. turns = pre @ tu # rest \<and>
         waiting ts taskID closer store_at t pre = Some t' \<and>
         select closer (WaitSleep ts) t' tu = Timer t'' \<and>
         FetchState ts taskID (store_at t'') = Inr task \<and> FinalStatus task \<noteq> StatusEmpty \<and>
         r = (Some task, None)) \<or>
      (\<exists>pre tu rest t' t'' err. turns = pre @ tu # rest \<and>
         waiting ts taskID closer store_at t pre = Some t' \<and>
         select closer (WaitSleep ts) t' tu = Timer t'' \<and>
         Get (Storage ts) (store_at t'') taskID = Inl err \<and>
         r = (None, Some (maskAny (maskAny err))))"
    by (rule Wait_returns_cases)
next
  show "WaitForFinalStatus ts taskID None store_at t turns \<noteq> Some (None, None)"
    by (rule Wait_never_closed)
next
  assume "waiting ts taskID (Some fired) store_at t pre = Some t' \<and>
    fired < t' + WaitSleep ts \<and> int (delay tu) < WaitSleep ts"
  then show "WaitForFinalStatus ts taskID (Some fired) store_at t (pre @ tu # rest) =
      Some (None, None)"
    by (simp add: waiting_prefix select_before_timer)
next
  assume "fired \<le> t \<and> (int (delay tu) < WaitSleep ts \<or> pick tu = PickCloser)"
  then show "WaitForFinalStatus ts taskID (Some fired) store_at t (tu # turns) = Some (None, None)"
    by (auto simp add: select_fired)
next
  fix task
  assume "fired \<le> t \<and> WaitSleep ts \<le> int (delay tu) \<and> pick tu = PickTimer"
    and "FetchState ts taskID (store_at (t + int (delay tu))) = Inr task \<and>
           FinalStatus task \<noteq> StatusEmpty"
  then show "WaitForFinalStatus ts taskID (Some fired) store_at t (tu # turns) =
           Some (Some task, None)"
    by (simp add: select_fired HasFinalStatus_def)
qed

theorem WaitForFinalStatus_three_outcomes_witness:
  "waiting DefaultConfig ''task-1'' (Some 1500000000) succeeds_later 0
       [\<lparr>delay = 0, pick = PickTimer\<rparr>] = Some 1000000000 \<and>
   select (Some 1500000000) (WaitSleep DefaultConfig) 1000000000 \<lparr>delay = 0, pick = PickTimer\<rparr> =
     Closer \<and>
   WaitForFinalStatus DefaultConfig ''task-1'' (Some 1500000000) succeeds_later 0
       [\<lparr>delay = 0, pick = PickTimer\<rparr>, \<lparr>delay = 0, pick = PickTimer\<rparr>] = Some (None, None) \<and>
   waiting DefaultConfig ''task-1'' None succeeds_later 0
       [\<lparr>delay = 0, pick = PickTimer\<rparr>, \<lparr>delay = 0, pick = PickTimer\<rparr>] = Some 2000000000 \<and>
   select None (WaitSleep DefaultConfig) 2000000000 \<lparr>delay = 0, pick = PickTimer\<rparr> =
     Timer 3000000000 \<and>
   FetchState DefaultConfig ''task-1'' (succeeds_later 3000000000) = Inr succeeded1 \<and>
   FinalStatus succeeded1 \<noteq> StatusEmpty \<and>
   WaitForFinalStatus DefaultConfig ''task-1'' None succeeds_later 0
       [\<lparr>delay = 0, pick = PickTimer\<rparr>, \<lparr>delay = 0, pick = PickTimer\<rparr>,
        \<lparr>delay = 0, pick = PickTimer\<rparr>] = Some (Some succeeded1, None) \<and>
   waiting DefaultConfig ''task-1'' None lost_later 0
       [\<lparr>delay = 0, pick = PickTimer\<rparr>, \<lparr>delay = 0, pick = PickTimer\<rparr>] = Some 2000000000 \<and>
   Get (Storage DefaultConfig) (lost_later 3000000000) ''task-1'' =
     Inl (Err NotFoundError ''task object not found'') \<and>
   WaitForFinalStatus DefaultConfig ''task-1'' None lost_later 0
       [\<lparr>delay = 0, pick = PickTimer\<rparr>, \<lparr>delay = 0, pick = PickTimer\<rparr>,
        \<lparr>delay = 0, pick = PickTimer\<rparr>] =
     Some (None, Some (Masked (Masked (Err NotFoundError ''task object not found'')))) \<and>
   WaitForFinalStatus DefaultConfig ''task-1'' None succeeds_later 0
       [\<lparr>delay = 0, pick = PickTimer\<rparr>, \<lparr>delay = 0, pick = PickTimer\<rparr>] = None \<and>
   (\<exists>pre tu rest t'.
       [\<lparr>delay = 0, pick = PickTimer\<rparr>, \<lparr>delay = 0, pick = PickTimer\<rparr>] = pre @ tu # rest \<and>
       waiting DefaultConfig ''task-1'' (Some 1500000000) succeeds_later 0 pre = Some t' \<and>
       select (Some 1500000000) (WaitSleep DefaultConfig) t' tu = Closer) \<and>
   (1500000000::int) < 1000000000 + WaitSleep DefaultConfig \<and>
   WaitForFinalStatus DefaultConfig ''task-1'' (Some 1500000000) succeeds_later 0
       [\<lparr>delay = 0, pick = PickTimer\<rparr>, \<lparr>delay = 0, pick = PickCloser\<rparr>,
        \<lparr>delay = 0, pick = PickTimer\<rparr>] = Some (None, None) \<and>
   (0::int) \<le> 5 \<and> int (delay \<lparr>delay = 0, pick = PickTimer\<rparr>) < WaitSleep DefaultConfig \<and>
   WaitForFinalStatus DefaultConfig ''task-1'' (Some 0) succeeded_at 5
       [\<lparr>delay = 0, pick = PickTimer\<rparr>] = Some (None, None) \<and>
   WaitSleep ShortSleepConfig \<le> int (delay \<lparr>delay = 1, pick = PickTimer\<rparr>) \<and>
   pick \<lparr>delay = 1, pick = PickTimer\<rparr> = PickTimer \<and>
   FetchState ShortSleepConfig ''task-1''
       (succeeded_at (5 + int (delay \<lparr>delay = 1, pick = PickTimer\<rparr>))) = Inr succeeded1 \<and>
   WaitForFinalStatus ShortSleepConfig ''task-1'' (Some 0) succeeded_at 5
       [\<lparr>delay = 1, pick = PickTimer\<rparr>] = Some (Some succeeded1, None)"
proof -
  let ?tu = "\<lparr>delay = 0, pick = PickTimer\<rparr>"
  let ?tu1 = "\<lparr>delay = 1, pick = PickTimer\<rparr>"
  note ev = select_def Let_def DefaultConfig_def ShortSleepConfig_def NewMemoryStorage_def
    FetchState_def HasFinalStatus_def task1_def succeeded1_def succeeds_later_def lost_later_def
    succeeded_at_def
  have w1: "waiting DefaultConfig ''task-1'' (Some 1500000000) succeeds_later 0 [?tu] =
      Some 1000000000"
    by (simp add: ev)
  have s1: "select (Some 1500000000) (WaitSleep DefaultConfig) 1000000000 ?tu = Closer"
    by (simp add: ev)
  have w2: "waiting DefaultConfig ''task-1'' None succeeds_later 0 [?tu, ?tu] = Some 2000000000"
    by (simp add: ev)
  have s2: "select None (WaitSleep DefaultConfig) 2000000000 ?tu = Timer 3000000000"
    by (simp add: ev)
  have f2: "FetchState DefaultConfig ''task-1'' (succeeds_later 3000000000) = Inr succeeded1 \<and>
      FinalStatus succeeded1 \<noteq> StatusEmpty"
    by (simp add: ev)
  have w3: "waiting DefaultConfig ''task-1'' None lost_later 0 [?tu, ?tu] = Some 2000000000"
    by (simp add: ev)
  have g3: "Get (Storage DefaultConfig) (lost_later 3000000000) ''task-1'' =
      Inl (Err NotFoundError ''task object not found'')"
    by (simp add: ev)
  have h6: "(0::int) \<le> 5 \<and> int (delay ?tu) < WaitSleep DefaultConfig"
    by (simp add: ev)
  have h7: "(0::int) \<le> 5 \<and> WaitSleep ShortSleepConfig \<le> int (delay ?tu1) \<and> pick ?tu1 = PickTimer"
    by (simp add: ev)
  have f7: "FetchState ShortSleepConfig ''task-1'' (succeeded_at (5 + int (delay ?tu1))) =
      Inr succeeded1"
    by (simp add: ev)
  have a: "WaitForFinalStatus DefaultConfig ''task-1'' (Some 1500000000) succeeds_later 0
             ([?tu] @ ?tu # []) = Some (None, None)"
    using WaitForFinalStatus_three_outcomes
      [where ts = DefaultConfig and taskID = "''task-1''" and closer = "Some 1500000000"
         and store_at = succeeds_later and t = 0 and pre = "[?tu]" and t' = 1000000000
         and tu = ?tu and rest = "[]"]
      w1 s1 by blast
  then have a': "WaitForFinalStatus DefaultConfig ''task-1'' (Some 1500000000) succeeds_later 0
             [?tu, ?tu] = Some (None, None)"
    by simp
  note t2 = WaitForFinalStatus_three_outcomes
      [where ts = DefaultConfig and taskID = "''task-1''" and closer = None
         and store_at = succeeds_later and t = 0 and pre = "[?tu, ?tu]" and t' = 2000000000
         and tu = ?tu and rest = "[]"]
  have b: "WaitForFinalStatus DefaultConfig ''task-1'' None succeeds_later 0
             ([?tu, ?tu] @ ?tu # []) = Some (Some succeeded1, None)"
    using t2 w2 s2 f2 by blast
  have d: "WaitForFinalStatus DefaultConfig ''task-1'' None succeeds_later 0 [?tu, ?tu] = None"
    using t2 w2 by blast
  have c: "WaitForFinalStatus DefaultConfig ''task-1'' None lost_later 0
             ([?tu, ?tu] @ ?tu # []) =
      Some (None, Some (maskAny (maskAny (Err NotFoundError ''task object not found''))))"
    using WaitForFinalStatus_three_outcomes
      [where ts = DefaultConfig and taskID = "''task-1''" and closer = None
         and store_at = lost_later and t = 0 and pre = "[?tu, ?tu]" and t' = 2000000000
         and tu = ?tu and rest = "[]"]
      w3 s2 g3 by blast
  have e: "\<exists>pre tu rest t'. [?tu, ?tu] = pre @ tu # rest \<and>
       waiting DefaultConfig ''task-1'' (Some 1500000000) succeeds_later 0 pre = Some t' \<and>
       select (Some 1500000000) (WaitSleep DefaultConfig) t' tu = Closer"
    using WaitForFinalStatus_three_outcomes
      [where ts = DefaultConfig and taskID = "''task-1''" and closer = "Some 1500000000"
         and store_at = succeeds_later and t = 0 and turns = "[?tu, ?tu]" and r = "(None, None)"]
      a'
    by simp
  have h5: "(1500000000::int) < 1000000000 + WaitSleep DefaultConfig \<and>
      int (delay \<lparr>delay = 0, pick = PickCloser\<rparr>) < WaitSleep DefaultConfig"
    by (simp add: ev)
  have e2: "WaitForFinalStatus DefaultConfig ''task-1'' (Some 1500000000) succeeds_later 0
             ([?tu] @ \<lparr>delay = 0, pick = PickCloser\<rparr> # [?tu]) = Some (None, None)"
    using WaitForFinalStatus_three_outcomes
      [where ts = DefaultConfig and taskID = "''task-1''" and fired = 1500000000
         and store_at = succeeds_later and t = 0 and pre = "[?tu]" and t' = 1000000000
         and tu = "\<lparr>delay = 0, pick = PickCloser\<rparr>" and rest = "[?tu]"]
      w1 h5 by blast
  have f: "WaitForFinalStatus DefaultConfig ''task-1'' (Some 0) succeeded_at 5 [?tu] =
      Some (None, None)"
    using WaitForFinalStatus_three_outcomes
      [where ts = DefaultConfig and taskID = "''task-1''" and fired = 0
         and store_at = succeeded_at and t = 5 and tu = ?tu and turns = "[]"]
      h6 by blast
  have g: "WaitForFinalStatus ShortSleepConfig ''task-1'' (Some 0) succeeded_at 5 [?tu1] =
      Some (Some succeeded1, None)"
    using WaitForFinalStatus_three_outcomes
      [where ts = ShortSleepConfig and taskID = "''task-1''" and fired = 0
         and store_at = succeeded_at and t = 5 and tu = ?tu1 and turns = "[]"]
      h7 f7 f2 by blast
  from w1 s1 a' w2 s2 f2 b w3 g3 c d e h5 e2 h6 f h7 f7 g show ?thesis
    by simp
qed

text \<open>
  C1 as stated fails in its last sentence. With \<open>WaitSleep\<close> zero the timer of the first
  turn has run out as soon as it is started, so both cases of the first \<open>select\<close> can
  proceed and the runtime chooses: when it chooses the timer, a call made after the
  closer has fired polls and returns the task with its final status, not \<open>(nil, nil)\<close>.
  The same happens with a \<open>WaitSleep\<close> of one nanosecond when that nanosecond has passed
  before the \<open>select\<close> looks at its cases.
\<close>

theorem WaitForFinalStatus_closer_fired_counterexample:
  "WaitForFinalStatus ZeroSleepConfig ''task-1'' (Some 0) succeeded_at 5
       [\<lparr>delay = 0, pick = PickTimer\<rparr>] = Some (Some succeeded1, None) \<and>
   WaitForFinalStatus ShortSleepConfig ''task-1'' (Some 0) succeeded_at 5
       [\<lparr>delay = 1, pick = PickTimer\<rparr>] = Some (Some succeeded1, None)"
  by (simp add: select_def Let_def DefaultConfig_def ZeroSleepConfig_def ShortSleepConfig_def
      NewMemoryStorage_def FetchState_def HasFinalStatus_def succeeded1_def succeeded_at_def)









text \<open>
  C5. For every task record (a valid pointer) and every error, \<open>MarkAsFailedWithError\<close>
  returns; on the record it sets \<open>ActiveStatus\<close> to Stopped, \<open>FinalStatus\<close> to Failed and
  \<open>Error\<close> to the error's text and leaves the ID alone; it hands exactly that record to
  \<open>Storage.Set\<close>, whose new state is the Storage afterwards; it returns the pointer it
  was given when the write returned nil, and the write's error, masked twice, otherwise.
\<close>

theorem MarkAsFailedWithError_sets_persists_returns:
  assumes "taskObject < length (heap w)"
  shows "\<exists>res w' werr.
           MarkAsFailedWithError ts taskObject err w = Some (res, w') \<and>
           heap w' = (heap w)[taskObject := (heap w ! taskObject)
                        \<lparr>ActiveStatus := StatusStopped, Error := errorText err,
                         FinalStatus := StatusFailed\<rparr>] \<and>
           ActiveStatus (heap w' ! taskObject) = StatusStopped \<and>
           FinalStatus (heap w' ! taskObject) = StatusFailed \<and>
           Error (heap w' ! taskObject) = errorText err \<and>
           ID (heap w' ! taskObject) = ID (heap w ! taskObject) \<and>
           Set (Storage ts) (store w) (heap w' ! taskObject) = (werr, store w') \<and>
           res = (case werr of None \<Rightarrow> Inr taskObject | Some e \<Rightarrow> Inl (maskAny (maskAny e))) \<and>
           uuid_calls w' = uuid_calls w \<and> logged w' = logged w"
  using assms by (simp add: MarkAsFailedWithError_unfold prod_eq_iff)

theorem MarkAsFailedWithError_sets_persists_returns_witness:
  "0 < length (heap MemoryWorld) \<and>
   (\<exists>w'. MarkAsFailedWithError DefaultConfig 0 (Err ActionError ''disk full'') MemoryWorld
          = Some (Inr 0, w') \<and>
        heap w' = [failed1] \<and>
        FetchState DefaultConfig ''task-1'' (store w') = Inr failed1)"
proof -
  have v: "0 < length (heap MemoryWorld)"
    by (simp add: world1_def MemoryWorld_def)
  obtain res w' werr where
    r: "MarkAsFailedWithError DefaultConfig 0 (Err ActionError ''disk full'') MemoryWorld
          = Some (res, w')" and
    h: "heap w' = (heap MemoryWorld)[0 := (heap MemoryWorld ! 0)
                        \<lparr>ActiveStatus := StatusStopped,
                         Error := errorText (Err ActionError ''disk full''),
                         FinalStatus := StatusFailed\<rparr>]" and
    s: "Set (Storage DefaultConfig) (store MemoryWorld) (heap w' ! 0) = (werr, store w')" and
    e: "res = (case werr of None \<Rightarrow> Inr 0 | Some e \<Rightarrow> Inl (maskAny (maskAny e)))"
    using MarkAsFailedWithError_sets_persists_returns
          [OF v, of DefaultConfig "Err ActionError ''disk full''"]
    by blast
  have h': "heap w' = [failed1]"
    using h by (simp add: world1_def MemoryWorld_def task1_def failed1_def)
  have s': "werr = None \<and> store w' = Map.empty(''task-1'' \<mapsto> failed1)"
    using s unfolding h'
    by (simp add: DefaultConfig_def NewMemoryStorage_def world1_def MemoryWorld_def prod_eq_iff
        failed1_def)
  have "res = Inr 0" using e s' by simp
  moreover have "FetchState DefaultConfig ''task-1'' (store w') = Inr failed1"
    using s' by (simp add: FetchState_def DefaultConfig_def NewMemoryStorage_def)
  ultimately show ?thesis using v r h' by simp
qed

text \<open>
  C6. For every task record (a valid pointer), \<open>MarkAsSucceeded\<close> returns; on the given
  record it sets \<open>ActiveStatus\<close> to Stopped and \<open>FinalStatus\<close> to Succeeded and leaves the
  ID and the \<open>Error\<close> field as they were; it hands exactly that record to
  \<open>Storage.Set\<close>, whose new state is the Storage afterwards; it returns the pointer it
  was given when the write returned nil, and the write's error, masked twice, otherwise.
\<close>

theorem MarkAsSucceeded_sets_persists_returns:
  assumes "taskObject < length (heap w)"
  shows "\<exists>res w' werr.
           MarkAsSucceeded ts taskObject w = Some (res, w') \<and>
           heap w' = (heap w)[taskObject := (heap w ! taskObject)
                        \<lparr>ActiveStatus := StatusStopped, FinalStatus := StatusSucceeded\<rparr>] \<and>
           ActiveStatus (heap w' ! taskObject) = StatusStopped \<and>
           FinalStatus (heap w' ! taskObject) = StatusSucceeded \<and>
           Error (heap w' ! taskObject) = Error (heap w ! taskObject) \<and>
           ID (heap w' ! taskObject) = ID (heap w ! taskObject) \<and>
           Set (Storage ts) (store w) (heap w' ! taskObject) = (werr, store w') \<and>
           res = (case werr of None \<Rightarrow> Inr taskObject | Some e \<Rightarrow> Inl (maskAny (maskAny e))) \<and>
           uuid_calls w' = uuid_calls w \<and> logged w' = logged w"
  using assms by (simp add: MarkAsSucceeded_unfold prod_eq_iff)

theorem MarkAsSucceeded_sets_persists_returns_witness:
  "0 < length (heap MemoryWorld) \<and>
   (\<exists>w'. MarkAsSucceeded DefaultConfig 0 MemoryWorld = Some (Inr 0, w') \<and>
        heap w' = [succeeded1] \<and>
        FetchState DefaultConfig ''task-1'' (store w') = Inr succeeded1)"
proof -
  have v: "0 < length (heap MemoryWorld)"
    by (simp add: world1_def MemoryWorld_def)
  obtain res w' werr where
    r: "MarkAsSucceeded DefaultConfig 0 MemoryWorld = Some (res, w')" and
    h: "heap w' = (heap MemoryWorld)[0 := (heap MemoryWorld ! 0)
                        \<lparr>ActiveStatus := StatusStopped, FinalStatus := StatusSucceeded\<rparr>]" and
    s: "Set (Storage DefaultConfig) (store MemoryWorld) (heap w' ! 0) = (werr, store w')" and
    e: "res = (case werr of None \<Rightarrow> Inr 0 | Some e \<Rightarrow> Inl (maskAny (maskAny e)))"
    using MarkAsSucceeded_sets_persists_returns [OF v, of DefaultConfig]
    by blast
  have h': "heap w' = [succeeded1]"
    using h by (simp add: world1_def MemoryWorld_def task1_def succeeded1_def)
  have s': "werr = None \<and> store w' = Map.empty(''task-1'' \<mapsto> succeeded1)"
    using s unfolding h'
    by (simp add: DefaultConfig_def NewMemoryStorage_def world1_def MemoryWorld_def prod_eq_iff
        succeeded1_def)
  have "res = Inr 0" using e s' by simp
  moreover have "FetchState DefaultConfig ''task-1'' (store w') = Inr succeeded1"
    using s' by (simp add: FetchState_def DefaultConfig_def NewMemoryStorage_def)
  ultimately show ?thesis using v r h' by simp
qed

text \<open>
  C7, as amended. For the task of a \<open>Create\<close>, under every schedule of its two threads:
  the \<open>Error\<close> field is non-empty only if the action returned an error, it is then that
  error's text, the task is Stopped, and its \<open>FinalStatus\<close> is Failed unless the goroutine
  stands between the assignments of \<open>Error\<close> and of \<open>FinalStatus\<close>; a task whose
  \<open>FinalStatus\<close> is Succeeded has an empty \<open>Error\<close>; once the goroutine is done (five of
  its steps are enough), \<open>Error\<close> is non-empty only with \<open>FinalStatus\<close> Failed.
  \<open>MarkAsSucceeded\<close> leaves the \<open>Error\<close> field of the record as it finds it, so the
  task it returns has an empty \<open>Error\<close> when the record it was given had one.
\<close>

theorem Create_Error_only_when_failed:
  "(Error (created_task (Create ts action sched w)) \<noteq> '''' \<longrightarrow>
      (\<exists>err. action () = Some err \<and>
         Error (created_task (Create ts action sched w)) = errorText err) \<and>
      ActiveStatus (created_task (Create ts action sched w)) = StatusStopped \<and>
      (FinalStatus (created_task (Create ts action sched w)) = StatusFailed \<or>
       go (Create ts action sched w) = G_Failed_FinalStatus)) \<and>
   (FinalStatus (created_task (Create ts action sched w)) = StatusSucceeded \<longrightarrow>
      Error (created_task (Create ts action sched w)) = '''') \<and>
   (go (Create ts action sched w) = G_Done \<or> 5 \<le> count_list sched Go \<longrightarrow>
      Error (created_task (Create ts action sched w)) \<noteq> '''' \<longrightarrow>
      FinalStatus (created_task (Create ts action sched w)) = StatusFailed) \<and>
   (taskObject < length (heap m) \<longrightarrow>
      (\<exists>res m'. MarkAsSucceeded ts taskObject m = Some (res, m') \<and>
         Error (heap m' ! taskObject) = Error (heap m ! taskObject)))"
proof (intro conjI impI)
  assume e: "Error (created_task (Create ts action sched w)) \<noteq> ''''"
  note r = go_record_Error [OF Create_go_record e]
  from r show "\<exists>err. action () = Some err \<and>
         Error (created_task (Create ts action sched w)) = errorText err"
    by (rule conjunct1)
  from r show "ActiveStatus (created_task (Create ts action sched w)) = StatusStopped"
    by simp
  from r show "FinalStatus (created_task (Create ts action sched w)) = StatusFailed \<or>
       go (Create ts action sched w) = G_Failed_FinalStatus"
    by simp
next
  assume "FinalStatus (created_task (Create ts action sched w)) = StatusSucceeded"
  with Create_go_record show "Error (created_task (Create ts action sched w)) = ''''"
    by (rule go_record_Succeeded)
next
  assume "go (Create ts action sched w) = G_Done \<or> 5 \<le> count_list sched Go"
  then have d: "go (Create ts action sched w) = G_Done"
    by (auto intro: Create_done)
  assume e: "Error (created_task (Create ts action sched w)) \<noteq> ''''"
  from go_record_Error [OF Create_go_record e] d
  show "FinalStatus (created_task (Create ts action sched w)) = StatusFailed"
    by simp
next
  assume "taskObject < length (heap m)"
  then show "\<exists>res m'. MarkAsSucceeded ts taskObject m = Some (res, m') \<and>
         Error (heap m' ! taskObject) = Error (heap m ! taskObject)"
    by (simp add: MarkAsSucceeded_unfold)
qed

theorem Create_Error_only_when_failed_witness:
  "Error (created_task (Create DefaultConfig disk_full [Go, Go, Go, Go, Go] MemoryWorld)) \<noteq> '''' \<and>
   disk_full () = Some (Err ActionError ''disk full'') \<and>
   Error (created_task (Create DefaultConfig disk_full [Go, Go, Go, Go, Go] MemoryWorld)) =
     errorText (Err ActionError ''disk full'') \<and>
   go (Create DefaultConfig disk_full [Go, Go, Go, Go, Go] MemoryWorld) = G_Done \<and>
   5 \<le> count_list [Go, Go, Go, Go, Go] Go \<and>
   FinalStatus (created_task (Create DefaultConfig disk_full [Go, Go, Go, Go, Go] MemoryWorld)) =
     StatusFailed \<and>
   FinalStatus (created_task (Create DefaultConfig no_error [Go, Go, Go, Main] MemoryWorld)) =
     StatusSucceeded \<and>
   Error (created_task (Create DefaultConfig no_error [Go, Go, Go, Main] MemoryWorld)) = '''' \<and>
   0 < length (heap MemoryWorld) \<and>
   (\<exists>res m'. MarkAsSucceeded DefaultConfig 0 MemoryWorld = Some (res, m') \<and>
      Error (heap m' ! 0) = Error (heap MemoryWorld ! 0))"
proof -
  have e: "Error (created_task (Create DefaultConfig disk_full [Go, Go, Go, Go, Go] MemoryWorld)) \<noteq> ''''"
    by (simp add: eval_defs)
  have a: "disk_full () = Some (Err ActionError ''disk full'')"
    by (simp add: disk_full_def)
  have d: "go (Create DefaultConfig disk_full [Go, Go, Go, Go, Go] MemoryWorld) = G_Done"
    by (simp add: eval_defs)
  have s: "FinalStatus (created_task (Create DefaultConfig no_error [Go, Go, Go, Main] MemoryWorld)) =
     StatusSucceeded"
    by (simp add: eval_defs)
  have v: "0 < length (heap MemoryWorld)"
    by (simp add: MemoryWorld_def world1_def)
  note t1 = Create_Error_only_when_failed
      [where ts = DefaultConfig and action = disk_full and sched = "[Go, Go, Go, Go, Go]"
         and w = MemoryWorld and taskObject = 0 and m = MemoryWorld]
  note t2 = Create_Error_only_when_failed
      [where ts = DefaultConfig and action = no_error and sched = "[Go, Go, Go, Main]"
         and w = MemoryWorld and taskObject = 0 and m = MemoryWorld]
  from t1 e a have x: "Error (created_task (Create DefaultConfig disk_full [Go, Go, Go, Go, Go] MemoryWorld)) =
     errorText (Err ActionError ''disk full'')"
    by auto
  from t1 e d have y: "FinalStatus (created_task (Create DefaultConfig disk_full [Go, Go, Go, Go, Go] MemoryWorld)) =
     StatusFailed"
    by blast
  from t2 s have z: "Error (created_task (Create DefaultConfig no_error [Go, Go, Go, Main] MemoryWorld)) = ''''"
    by blast
  from t1 v have u: "\<exists>res m'. MarkAsSucceeded DefaultConfig 0 MemoryWorld = Some (res, m') \<and>
      Error (heap m' ! 0) = Error (heap MemoryWorld ! 0)"
    by blast
  have c: "5 \<le> count_list [Go, Go, Go, Go, Go] Go"
    by simp
  from e a x d c y s z v u show ?thesis by (intro conjI)
qed

text \<open>
  C7 as stated fails. \<open>MarkAsSucceeded\<close> does not clear \<open>Error\<close>: for the task that was
  marked as failed with "disk full" it returns a task that is Succeeded and still carries
  "disk full". And between the third and the fourth statement of the goroutine of a
  failing action the created task carries the error text with an empty \<open>FinalStatus\<close>;
  the main thread's write at that moment puts this record into the Storage.
\<close>

theorem MarkAsSucceeded_keeps_Error_counterexample:
  "returned_task (MarkAsFailedWithError DefaultConfig 0 (Err ActionError ''disk full'') MemoryWorld) =
     Some failed1 \<and>
   heap FailedWorld = [failed1] \<and>
   returned_task (MarkAsSucceeded DefaultConfig 0 FailedWorld) =
     Some \<lparr>ActiveStatus = StatusStopped, Error = ''disk full'', FinalStatus = StatusSucceeded,
           ID = ''task-1''\<rparr> \<and>
   created_task (Create DefaultConfig disk_full [Go, Go, Go] MemoryWorld) =
     \<lparr>ActiveStatus = StatusStopped, Error = ''disk full'', FinalStatus = StatusEmpty,
      ID = ''uuid-''\<rparr> \<and>
   FetchState DefaultConfig ''uuid-''
       (store (world (Create DefaultConfig disk_full [Go, Go, Go, Main] MemoryWorld))) =
     Inr \<lparr>ActiveStatus = StatusStopped, Error = ''disk full'', FinalStatus = StatusEmpty,
          ID = ''uuid-''\<rparr>"
  by (simp add: FailedWorld_def MarkAsFailedWithError_def MarkAsSucceeded_def eval_defs failed1_def)

text \<open>
  C8. Round trip through Storage. For a Storage that keeps the read-after-write contract
  of the spec, when \<open>PersistState\<close> of a task record returns nil, \<open>FetchState\<close> of the
  record's ID on the Storage it left behind returns a task equal to the record in every
  field, and the record itself is unchanged. The in-memory Storage keeps the contract and
  its writes always return nil, so there the round trip holds for every task record.
\<close>

theorem PersistState_FetchState_round_trip:
  "(read_after_write (Storage ts) \<longrightarrow> taskObject < length (heap w) \<longrightarrow>
      PersistState ts taskObject w = Some (None, w') \<longrightarrow>
      FetchState ts (ID (heap w ! taskObject)) (store w') = Inr (heap w ! taskObject) \<and>
      heap w' = heap w) \<and>
   read_after_write NewMemoryStorage \<and>
   (taskObject < length (heap m) \<longrightarrow>
      (\<exists>m'. PersistState DefaultConfig taskObject m = Some (None, m') \<and>
            FetchState DefaultConfig (ID (heap m ! taskObject)) (store m') =
              Inr (heap m ! taskObject) \<and>
            heap m' = heap m))"
proof (intro conjI impI)
  assume c: "read_after_write (Storage ts)" and v: "taskObject < length (heap w)"
    and p: "PersistState ts taskObject w = Some (None, w')"
  from p v have "fst (Set (Storage ts) (store w) (heap w ! taskObject)) = None"
    and w': "w' = w\<lparr>store := snd (Set (Storage ts) (store w) (heap w ! taskObject))\<rparr>"
    by (simp_all add: PersistState_valid)
  then have "Set (Storage ts) (store w) (heap w ! taskObject) = (None, store w')"
    by (simp add: prod_eq_iff)
  with c have "Get (Storage ts) (store w') (ID (heap w ! taskObject)) = Inr (heap w ! taskObject)"
    unfolding read_after_write_def by blast
  then show "FetchState ts (ID (heap w ! taskObject)) (store w') = Inr (heap w ! taskObject)"
    by (simp add: FetchState_def)
  from w' show "heap w' = heap w" by simp
next
  show "read_after_write NewMemoryStorage"
    by (rule NewMemoryStorage_read_after_write)
next
  assume "taskObject < length (heap m)"
  then show "\<exists>m'. PersistState DefaultConfig taskObject m = Some (None, m') \<and>
            FetchState DefaultConfig (ID (heap m ! taskObject)) (store m') =
              Inr (heap m ! taskObject) \<and>
            heap m' = heap m"
    by (simp add: PersistState_valid FetchState_def DefaultConfig_def NewMemoryStorage_def)
qed

theorem PersistState_FetchState_round_trip_witness:
  "read_after_write (Storage FlakyConfig) \<and>
   0 < length (heap (FlakyWorld [False])) \<and>
   PersistState FlakyConfig 0 (FlakyWorld [False]) =
     Some (None, (FlakyWorld [False])\<lparr>store := ([], [''task-1'' \<mapsto> task1])\<rparr>) \<and>
   FetchState FlakyConfig ''task-1'' ([], [''task-1'' \<mapsto> task1]) = Inr task1 \<and>
   0 < length (heap MemoryWorld) \<and>
   (\<exists>m'. PersistState DefaultConfig 0 MemoryWorld = Some (None, m') \<and>
         FetchState DefaultConfig ''task-1'' (store m') = Inr task1)"
proof -
  have c: "read_after_write (Storage FlakyConfig)"
    by (simp add: FlakyConfig_def FlakyStorage_read_after_write)
  have v: "0 < length (heap (FlakyWorld [False]))"
    by (simp add: FlakyWorld_def world1_def)
  have p: "PersistState FlakyConfig 0 (FlakyWorld [False]) =
     Some (None, (FlakyWorld [False])\<lparr>store := ([], [''task-1'' \<mapsto> task1])\<rparr>)"
    by (simp add: PersistState_def FlakyConfig_def FlakyStorage_def FlakyWorld_def world1_def
        task1_def)
  have v': "0 < length (heap MemoryWorld)"
    by (simp add: MemoryWorld_def world1_def)
  note t = PersistState_FetchState_round_trip
      [where ts = FlakyConfig and taskObject = 0 and w = "FlakyWorld [False]"
         and w' = "(FlakyWorld [False])\<lparr>store := ([], [''task-1'' \<mapsto> task1])\<rparr>"
         and m = MemoryWorld]
  have f: "FetchState FlakyConfig ''task-1'' ([], [''task-1'' \<mapsto> task1]) = Inr task1"
    using t c v p by (simp add: FlakyWorld_def world1_def task1_def)
  from t v' obtain m' where
    m1: "PersistState DefaultConfig 0 MemoryWorld = Some (None, m')" and
    m2: "FetchState DefaultConfig (ID (heap MemoryWorld ! 0)) (store m') = Inr (heap MemoryWorld ! 0)"
    by blast
  have "FetchState DefaultConfig ''task-1'' (store m') = Inr task1"
    using m2 by (simp add: MemoryWorld_def world1_def task1_def)
  with m1 have m: "\<exists>m'. PersistState DefaultConfig 0 MemoryWorld = Some (None, m') \<and>
         FetchState DefaultConfig ''task-1'' (store m') = Inr task1"
    by blast
  from c v p f v' m show ?thesis by simp
qed




text \<open>
  C10. When the write fails inside \<open>MarkAsSucceeded\<close> or \<open>MarkAsFailedWithError\<close>, the
  operation returns \<open>(nil, error)\<close>, and the record behind the given pointer has its
  terminal values all the same: Stopped, the final status, and on the failure path the
  error text. When the write returns nil the operation returns the very pointer it was
  given, and the record behind it is the record mutated in place; no \<open>Storage.Get\<close> takes
  part in either operation.
\<close>

theorem Mark_mutates_in_place_without_rollback:
  assumes "taskObject < length (heap w)"
  shows
    "(fst (Set (Storage ts) (store w)
         ((heap w ! taskObject)\<lparr>ActiveStatus := StatusStopped, FinalStatus := StatusSucceeded\<rparr>))
        = Some e \<longrightarrow>
      (\<exists>w'. MarkAsSucceeded ts taskObject w = Some (Inl (maskAny (maskAny e)), w') \<and>
            heap w' ! taskObject =
              (heap w ! taskObject)\<lparr>ActiveStatus := StatusStopped, FinalStatus := StatusSucceeded\<rparr>)) \<and>
     (fst (Set (Storage ts) (store w)
         ((heap w ! taskObject)\<lparr>ActiveStatus := StatusStopped, Error := errorText err,
                                  FinalStatus := StatusFailed\<rparr>))
        = Some e \<longrightarrow>
      (\<exists>w'. MarkAsFailedWithError ts taskObject err w = Some (Inl (maskAny (maskAny e)), w') \<and>
            heap w' ! taskObject =
              (heap w ! taskObject)\<lparr>ActiveStatus := StatusStopped, Error := errorText err,
                                      FinalStatus := StatusFailed\<rparr>)) \<and>
     (fst (Set (Storage ts) (store w)
         ((heap w ! taskObject)\<lparr>ActiveStatus := StatusStopped, FinalStatus := StatusSucceeded\<rparr>))
        = None \<longrightarrow>
      (\<exists>w'. MarkAsSucceeded ts taskObject w = Some (Inr taskObject, w') \<and>
            heap w' ! taskObject =
              (heap w ! taskObject)\<lparr>ActiveStatus := StatusStopped, FinalStatus := StatusSucceeded\<rparr>)) \<and>
     (fst (Set (Storage ts) (store w)
         ((heap w ! taskObject)\<lparr>ActiveStatus := StatusStopped, Error := errorText err,
                                  FinalStatus := StatusFailed\<rparr>))
        = None \<longrightarrow>
      (\<exists>w'. MarkAsFailedWithError ts taskObject err w = Some (Inr taskObject, w') \<and>
            heap w' ! taskObject =
              (heap w ! taskObject)\<lparr>ActiveStatus := StatusStopped, Error := errorText err,
                                      FinalStatus := StatusFailed\<rparr>))"
  using assms
  by (simp add: MarkAsSucceeded_unfold MarkAsFailedWithError_unfold del: maskAny.simps)

theorem Mark_mutates_in_place_without_rollback_witness:
  "0 < length (heap (FlakyWorld [True])) \<and>
   fst (Set (Storage FlakyConfig) (store (FlakyWorld [True])) succeeded1) =
     Some (Err StorageError ''write failed'') \<and>
   (\<exists>w'. MarkAsSucceeded FlakyConfig 0 (FlakyWorld [True]) =
          Some (Inl (Masked (Masked (Err StorageError ''write failed''))), w') \<and>
        heap w' ! 0 = succeeded1) \<and>
   fst (Set (Storage FlakyConfig) (store (FlakyWorld [True])) failed1) =
     Some (Err StorageError ''write failed'') \<and>
   (\<exists>w'. MarkAsFailedWithError FlakyConfig 0 (Err ActionError ''disk full'') (FlakyWorld [True]) =
          Some (Inl (Masked (Masked (Err StorageError ''write failed''))), w') \<and>
        heap w' ! 0 = failed1) \<and>
   0 < length (heap (FlakyWorld [False])) \<and>
   fst (Set (Storage FlakyConfig) (store (FlakyWorld [False])) succeeded1) = None \<and>
   (\<exists>w'. MarkAsSucceeded FlakyConfig 0 (FlakyWorld [False]) = Some (Inr 0, w') \<and>
        heap w' ! 0 = succeeded1) \<and>
   fst (Set (Storage FlakyConfig) (store (FlakyWorld [False])) failed1) = None \<and>
   (\<exists>w'. MarkAsFailedWithError FlakyConfig 0 (Err ActionError ''disk full'') (FlakyWorld [False]) =
          Some (Inr 0, w') \<and>
        heap w' ! 0 = failed1)"
proof -
  have v: "0 < length (heap (FlakyWorld [True]))" "0 < length (heap (FlakyWorld [False]))"
    by (simp_all add: FlakyWorld_def world1_def)
  have r: "(heap (FlakyWorld [True]) ! 0)\<lparr>ActiveStatus := StatusStopped, FinalStatus := StatusSucceeded\<rparr>
             = succeeded1"
      "(heap (FlakyWorld [True]) ! 0)\<lparr>ActiveStatus := StatusStopped,
          Error := errorText (Err ActionError ''disk full''), FinalStatus := StatusFailed\<rparr> = failed1"
      "(heap (FlakyWorld [False]) ! 0)\<lparr>ActiveStatus := StatusStopped, FinalStatus := StatusSucceeded\<rparr>
             = succeeded1"
      "(heap (FlakyWorld [False]) ! 0)\<lparr>ActiveStatus := StatusStopped,
          Error := errorText (Err ActionError ''disk full''), FinalStatus := StatusFailed\<rparr> = failed1"
    by (simp_all add: FlakyWorld_def world1_def task1_def succeeded1_def failed1_def)
  have s: "fst (Set (Storage FlakyConfig) (store (FlakyWorld [True])) succeeded1) =
             Some (Err StorageError ''write failed'')"
     "fst (Set (Storage FlakyConfig) (store (FlakyWorld [True])) failed1) =
             Some (Err StorageError ''write failed'')"
     "fst (Set (Storage FlakyConfig) (store (FlakyWorld [False])) succeeded1) = None"
     "fst (Set (Storage FlakyConfig) (store (FlakyWorld [False])) failed1) = None"
    by (simp_all add: FlakyConfig_def FlakyStorage_def FlakyWorld_def world1_def)
  note a = Mark_mutates_in_place_without_rollback
      [OF v(1), where ts = FlakyConfig and e = "Err StorageError ''write failed''"
         and err = "Err ActionError ''disk full''", unfolded r]
  note b = Mark_mutates_in_place_without_rollback
      [OF v(2), where ts = FlakyConfig and err = "Err ActionError ''disk full''", unfolded r]
  from a b s v show ?thesis by simp
qed

end
